theory Spec2Isabelle
  imports Main "HOL-Library.Sublist"
begin

section \<open>Text as the program sees it\<close>

text \<open>
  A Python \<open>str\<close> is a sequence of Unicode code points, modelled as a list of natural
  numbers. \<open>str\<close> turns an ASCII literal of the source into its code points; the few
  non-ASCII characters of the source's literals (arrow, bullet, emoji) are given by their
  code points.
\<close>

type_synonym pystr = "nat list"

definition str :: "string \<Rightarrow> pystr" where
  "str s = map of_char s"

definition nl :: pystr where
  "nl = [0x0A]"

definition dq :: pystr where
  "dq = [0x22]"

definition sq :: pystr where
  "sq = [0x27]"

definition arrow :: pystr where
  "arrow = [0x2192]"

definition bullet :: pystr where
  "bullet = [0x2022]"

definition thinking_face :: pystr where
  "thinking_face = [0x1F914]"

definition folded_hands :: pystr where
  "folded_hands = [0x1F64F]"

definition rocket :: pystr where
  "rocket = [0x1F680]"

definition sweat_smile :: pystr where
  "sweat_smile = [0x1F605]"

definition camera :: pystr where
  "camera = [0x1F4F7]"

definition wrench :: pystr where
  "wrench = [0x1F527]"

subsection \<open>Case mapping\<close>

text \<open>
  \<open>str.lower\<close>, \<open>str.upper\<close> and \<open>str.title\<close> map every code point through Python's Unicode
  tables. What they do to an ASCII code point is written out below, and so is the lower
  case of the two non-ASCII code points whose lower case contains an ASCII letter:
  U+0130 (capital I with dot above) becomes \<open>i\<close> followed by U+0307, and U+212A (Kelvin sign)
  becomes \<open>k\<close>. The rest of the tables is a parameter of the model:

  \<^item> \<open>lower_other before c after\<close> is what \<open>str.lower\<close> puts for the code point \<open>c\<close> standing
    between the code points \<open>before\<close> and \<open>after\<close> (the lower case of U+03A3 depends on its
    neighbours);
  \<^item> \<open>upper_other c\<close> is what \<open>str.upper\<close> puts for \<open>c\<close>;
  \<^item> \<open>title_other prev before c after\<close> is what \<open>str.title\<close> puts for \<open>c\<close> there, \<open>prev\<close>
    telling whether the code point before it is cased, and \<open>cased_other c\<close> tells whether
    \<open>c\<close> is cased.

  The parameter is consulted only for code points from 128 on other than the two above.
  Nothing is assumed about it: every statement below holds for all tables.
\<close>

record unicode_tables =
  lower_other :: "pystr \<Rightarrow> nat \<Rightarrow> pystr \<Rightarrow> pystr"
  upper_other :: "nat \<Rightarrow> pystr"
  title_other :: "bool \<Rightarrow> pystr \<Rightarrow> nat \<Rightarrow> pystr \<Rightarrow> pystr"
  cased_other :: "nat \<Rightarrow> bool"

definition is_ascii_upper :: "nat \<Rightarrow> bool" where
  "is_ascii_upper c = (65 \<le> c \<and> c \<le> 90)"

definition is_ascii_lower :: "nat \<Rightarrow> bool" where
  "is_ascii_lower c = (97 \<le> c \<and> c \<le> 122)"

definition ascii_lower :: "nat \<Rightarrow> nat" where
  "ascii_lower c = (if is_ascii_upper c then c + 32 else c)"

definition ascii_upper :: "nat \<Rightarrow> nat" where
  "ascii_upper c = (if is_ascii_lower c then c - 32 else c)"

definition lower_cp :: "unicode_tables \<Rightarrow> pystr \<Rightarrow> nat \<Rightarrow> pystr \<Rightarrow> pystr" where
  "lower_cp U before c after =
     (if c < 128 then [ascii_lower c]
      else if c = 0x130 then [0x69, 0x307]
      else if c = 0x212A then [0x6B]
      else lower_other U before c after)"

fun lower_from :: "unicode_tables \<Rightarrow> pystr \<Rightarrow> pystr \<Rightarrow> pystr" where
  "lower_from U before [] = []"
| "lower_from U before (c # after) =
     lower_cp U before c after @ lower_from U (before @ [c]) after"

definition lower :: "unicode_tables \<Rightarrow> pystr \<Rightarrow> pystr" where
  "lower U s = lower_from U [] s"

definition upper_cp :: "unicode_tables \<Rightarrow> nat \<Rightarrow> pystr" where
  "upper_cp U c = (if c < 128 then [ascii_upper c] else upper_other U c)"

definition upper :: "unicode_tables \<Rightarrow> pystr \<Rightarrow> pystr" where
  "upper U s = concat (map (upper_cp U) s)"

text \<open>
  \<open>str.title\<close>: a code point that follows a cased one is lower-cased, any other is
  title-cased (for an ASCII code point that is its upper case). The flag is "the previous
  code point is cased"; the cased ASCII code points are the letters.
\<close>

fun title_from :: "unicode_tables \<Rightarrow> bool \<Rightarrow> pystr \<Rightarrow> pystr \<Rightarrow> pystr" where
  "title_from U prev before [] = []"
| "title_from U prev before (c # after) =
     (if c < 128
      then (if prev then ascii_lower c else ascii_upper c)
             # title_from U (is_ascii_upper c \<or> is_ascii_lower c) (before @ [c]) after
      else title_other U prev before c after
             @ title_from U (cased_other U c) (before @ [c]) after)"

definition title :: "unicode_tables \<Rightarrow> pystr \<Rightarrow> pystr" where
  "title U s = title_from U False [] s"

text \<open>\<open>needle in haystack\<close> on strings: the needle occurs as a contiguous run.\<close>

fun py_in :: "pystr \<Rightarrow> pystr \<Rightarrow> bool" where
  "py_in k [] = (k = [])"
| "py_in k (c # cs) = (prefix k (c # cs) \<or> py_in k cs)"

text \<open>\<open>any(k in text for k in ks)\<close>.\<close>

definition any_in :: "pystr list \<Rightarrow> pystr \<Rightarrow> bool" where
  "any_in ks text = list_ex (\<lambda>k. py_in k text) ks"

text \<open>Decimal rendering of a non-negative integer, as an f-string prints it.\<close>

definition digit_char :: "nat \<Rightarrow> nat" where
  "digit_char d = 48 + d"

fun str_nat :: "nat \<Rightarrow> pystr" where
  "str_nat n = (if n < 10 then [digit_char n] else str_nat (n div 10) @ [digit_char (n mod 10)])"

declare str_nat.simps [simp del]

text \<open>Truthiness of an optional string: \<open>None\<close> and \<open>""\<close> are falsy.\<close>

fun truthy :: "pystr option \<Rightarrow> bool" where
  "truthy None = False"
| "truthy (Some s) = (s \<noteq> [])"

section \<open>Faults\<close>

datatype error =
    AttributeError
  | UnboundLocalError
  | NameError
  | ExternalFault pystr

section \<open>The knowledge base \<open>AWS_SERVICES\<close>\<close>

record service_entry =
  name :: pystr
  description :: pystr
  console :: pystr
  cli :: pystr
  sdk :: pystr
  troubleshoot :: "pystr list"
  subtopics :: "pystr list"

definition ec2_entry :: service_entry where
  "ec2_entry = \<lparr>
     name = str ''Amazon EC2'',
     description = str ''Virtual servers in the cloud'',
     console = str ''EC2 Dashboard '' @ arrow @ str '' Launch Instance '' @ arrow @ str '' Select AMI '' @ arrow
               @ str '' Choose Instance Type '' @ arrow @ str '' Configure '' @ arrow @ str '' Launch'',
     cli = str ''aws ec2 run-instances --image-id ami-xxxxx --instance-type t2.micro'',
     sdk = str ''boto3.client('' @ dq @ str ''ec2'' @ dq @ str '').run_instances(ImageId='' @ dq @ str ''ami-xxx'' @ dq
           @ str '', InstanceType='' @ dq @ str ''t2.micro'' @ dq @ str '')'',
     troubleshoot = [str ''Check IAM permissions'', str ''Verify security groups'', str ''Check instance state'',
                     str ''Review VPC settings''],
     subtopics = [str ''launch'', str ''security groups'', str ''key pairs'', str ''AMI'', str ''instance types'', str ''pricing'']
   \<rparr>"

definition s3_entry :: service_entry where
  "s3_entry = \<lparr>
     name = str ''Amazon S3'',
     description = str ''Object storage service'',
     console = str ''S3 Dashboard '' @ arrow @ str '' Create Bucket '' @ arrow @ str '' Enter name '' @ arrow
               @ str '' Select region '' @ arrow @ str '' Create'',
     cli = str ''aws s3 mb s3://bucket-name && aws s3 cp file.txt s3://bucket-name/'',
     sdk = str ''boto3.client('' @ dq @ str ''s3'' @ dq @ str '').create_bucket(Bucket='' @ dq @ str ''bucket-name'' @ dq @ str '')'',
     troubleshoot = [str ''Check bucket policies'', str ''Verify IAM permissions'', str ''Check region settings'',
                     str ''Review CORS configuration''],
     subtopics = [str ''buckets'', str ''storage classes'', str ''lifecycle policies'', str ''versioning'', str ''encryption'',
                  str ''static hosting'']
   \<rparr>"

definition lambda_entry :: service_entry where
  "lambda_entry = \<lparr>
     name = str ''AWS Lambda'',
     description = str ''Serverless compute service'',
     console = str ''Lambda Dashboard '' @ arrow @ str '' Create Function '' @ arrow @ str '' Select runtime '' @ arrow
               @ str '' Write code '' @ arrow @ str '' Test'',
     cli = str ''aws lambda create-function --function-name myFunc --runtime python3.9 --role arn:aws:iam::role'',
     sdk = str ''boto3.client('' @ dq @ str ''lambda'' @ dq @ str '').create_function(FunctionName='' @ dq @ str ''myFunc'' @ dq
           @ str '', Runtime='' @ dq @ str ''python3.9'' @ dq @ str '')'',
     troubleshoot = [str ''Check CloudWatch logs'', str ''Verify execution role'', str ''Check timeout settings'',
                     str ''Review memory allocation''],
     subtopics = [str ''triggers'', str ''layers'', str ''environment variables'', str ''cold starts'', str ''pricing'', str ''limits'']
   \<rparr>"

definition iam_entry :: service_entry where
  "iam_entry = \<lparr>
     name = str ''AWS IAM'',
     description = str ''Identity and Access Management'',
     console = str ''IAM Dashboard '' @ arrow @ str '' Users/Roles '' @ arrow @ str '' Create '' @ arrow
               @ str '' Attach policies '' @ arrow @ str '' Review'',
     cli = str ''aws iam create-user --user-name myuser && aws iam attach-user-policy'',
     sdk = str ''boto3.client('' @ dq @ str ''iam'' @ dq @ str '').create_user(UserName='' @ dq @ str ''myuser'' @ dq @ str '')'',
     troubleshoot = [str ''Check policy syntax'', str ''Verify permissions'', str ''Check trust relationships'',
                     str ''Review MFA settings''],
     subtopics = [str ''users'', str ''roles'', str ''policies'', str ''groups'', str ''MFA'', str ''access keys'', str ''federation'']
   \<rparr>"

definition vpc_entry :: service_entry where
  "vpc_entry = \<lparr>
     name = str ''Amazon VPC'',
     description = str ''Virtual Private Cloud'',
     console = str ''VPC Dashboard '' @ arrow @ str '' Create VPC '' @ arrow @ str '' Configure subnets '' @ arrow
               @ str '' Set up routing'',
     cli = str ''aws ec2 create-vpc --cidr-block 10.0.0.0/16'',
     sdk = str ''boto3.client('' @ dq @ str ''ec2'' @ dq @ str '').create_vpc(CidrBlock='' @ dq @ str ''10.0.0.0/16'' @ dq @ str '')'',
     troubleshoot = [str ''Check route tables'', str ''Verify NACL rules'', str ''Check internet gateway'',
                     str ''Review peering connections''],
     subtopics = [str ''subnets'', str ''route tables'', str ''internet gateway'', str ''NAT gateway'', str ''VPC peering'',
                  str ''endpoints'']
   \<rparr>"

definition rds_entry :: service_entry where
  "rds_entry = \<lparr>
     name = str ''Amazon RDS'',
     description = str ''Relational Database Service'',
     console = str ''RDS Dashboard '' @ arrow @ str '' Create Database '' @ arrow @ str '' Choose engine '' @ arrow
               @ str '' Configure '' @ arrow @ str '' Launch'',
     cli = str ''aws rds create-db-instance --db-instance-identifier mydb --db-instance-class db.t3.micro'',
     sdk = str ''boto3.client('' @ dq @ str ''rds'' @ dq @ str '').create_db_instance(DBInstanceIdentifier='' @ dq @ str ''mydb''
           @ dq @ str '')'',
     troubleshoot = [str ''Check security groups'', str ''Verify subnet groups'', str ''Check parameter groups'',
                     str ''Review backup settings''],
     subtopics = [str ''engines'', str ''multi-az'', str ''read replicas'', str ''backups'', str ''encryption'',
                  str ''performance insights'']
   \<rparr>"

definition cloudwatch_entry :: service_entry where
  "cloudwatch_entry = \<lparr>
     name = str ''Amazon CloudWatch'',
     description = str ''Monitoring and observability service'',
     console = str ''CloudWatch Dashboard '' @ arrow @ str '' Create Dashboard '' @ arrow @ str '' Add widgets '' @ arrow
               @ str '' Configure metrics'',
     cli = str ''aws cloudwatch put-metric-data --namespace '' @ dq @ str ''MyApp'' @ dq @ str '' --metric-data'',
     sdk = str ''boto3.client('' @ dq @ str ''cloudwatch'' @ dq @ str '').put_metric_data(Namespace='' @ dq @ str ''MyApp'' @ dq
           @ str '')'',
     troubleshoot = [str ''Check metric filters'', str ''Verify alarm thresholds'', str ''Review log groups'',
                     str ''Check retention policies''],
     subtopics = [str ''metrics'', str ''alarms'', str ''logs'', str ''dashboards'', str ''events'', str ''insights'']
   \<rparr>"

text \<open>The dictionary in insertion order; its keys are the known service ids.\<close>

definition AWS_SERVICES :: "(pystr \<times> service_entry) list" where
  "AWS_SERVICES =
     [(str ''ec2'', ec2_entry), (str ''s3'', s3_entry), (str ''lambda'', lambda_entry), (str ''iam'', iam_entry),
      (str ''vpc'', vpc_entry), (str ''rds'', rds_entry), (str ''cloudwatch'', cloudwatch_entry)]"

definition known_services :: "pystr list" where
  "known_services = map fst AWS_SERVICES"

section \<open>\<open>ConversationManager\<close>\<close>

record exchange =
  ex_user :: pystr
  ex_bot :: pystr
  ex_service :: "pystr option"
  ex_topic :: "pystr option"
  ex_timestamp :: pystr

record conversation =
  history :: "exchange list"
  current_service :: "pystr option"
  current_topic :: "pystr option"
  follow_up_count :: nat

type_synonym conversations = "pystr \<rightharpoonup> conversation"

definition empty_conversation :: conversation where
  "empty_conversation =
     \<lparr>history = [], current_service = None, current_topic = None, follow_up_count = 0\<rparr>"

text \<open>
  \<open>store_context\<close>: the record is created when the session id is new, one entry is
  appended, and each of the two sticky fields is overwritten only by a truthy argument.
  \<open>now\<close> is the text of \<open>datetime.now().isoformat()\<close> at the call.
\<close>

definition store_context ::
  "conversations \<Rightarrow> pystr \<Rightarrow> pystr \<Rightarrow> pystr \<Rightarrow> pystr option \<Rightarrow> pystr option \<Rightarrow> pystr
     \<Rightarrow> conversations" where
  "store_context convs session_id user_message bot_response service topic now =
     (let c0 = (case convs session_id of None \<Rightarrow> empty_conversation | Some c \<Rightarrow> c);
          c1 = c0\<lparr>history := history c0 @
                  [\<lparr>ex_user = user_message, ex_bot = bot_response, ex_service = service,
                    ex_topic = topic, ex_timestamp = now\<rparr>]\<rparr>;
          c2 = (if truthy service then c1\<lparr>current_service := service\<rparr> else c1);
          c3 = (if truthy topic then c2\<lparr>current_topic := topic\<rparr> else c2)
      in convs(session_id \<mapsto> c3))"

definition get_context :: "conversations \<Rightarrow> pystr \<Rightarrow> conversation" where
  "get_context convs session_id =
     (case convs session_id of None \<Rightarrow> empty_conversation | Some c \<Rightarrow> c)"

definition follow_up_indicators :: "pystr list" where
  "follow_up_indicators =
     [str ''aur'', str ''and'', str ''also'', str ''kya'', str ''how about'', str ''what about'',
      str ''uske baad'', str ''phir'', str ''then'', str ''next'', str ''more'', str ''detail'',
      str ''explain'', str ''batao'', str ''samjhao'', str ''iske alawa'']"

definition is_follow_up :: "unicode_tables \<Rightarrow> pystr \<Rightarrow> conversation \<Rightarrow> bool" where
  "is_follow_up U message context =
     (any_in follow_up_indicators (lower U message) \<and> length (history context) > 0)"

text \<open>
  A sequence of stores into one session: each element carries the arguments of one call
  (user text, bot text, service, topic, timestamp).
\<close>

fun store_all ::
  "conversations \<Rightarrow> pystr \<Rightarrow> (pystr \<times> pystr \<times> pystr option \<times> pystr option \<times> pystr) list
     \<Rightarrow> conversations" where
  "store_all convs sid [] = convs"
| "store_all convs sid ((u, b, s, t, now) # rest) =
     store_all (store_context convs sid u b s t now) sid rest"

section \<open>\<open>PracticeQuestionGenerator.get_fallback_question\<close>\<close>

record question =
  q_question :: pystr
  q_options :: "pystr list"
  q_correct :: int
  q_explanation :: pystr
  q_service :: pystr
  q_difficulty :: pystr
  q_topic :: pystr

definition fallback_questions :: "(pystr \<times> question) list" where
  "fallback_questions =
     [(str ''s3_beginner'',
       \<lparr>q_question = str ''S3 bucket create karne ke liye minimum kya chahiye?'',
        q_options = [str ''Bucket name aur region'', str ''Only bucket name'', str ''Name, region aur policy'',
                     str ''AWS account only''],
        q_correct = 0,
        q_explanation =
          str ''Bucket name unique hona chahiye globally aur region select karna zaroori hai.'',
        q_service = str ''s3'', q_difficulty = str ''beginner'', q_topic = str ''basic''\<rparr>),
      (str ''ec2_intermediate'',
       \<lparr>q_question =
          str ''Production environment ke liye EC2 instance choose karte time kya consider karna chahiye?'',
        q_options = [str ''Only price'', str ''CPU aur memory requirements'', str ''All resources aur redundancy'',
                     str ''Storage type only''],
        q_correct = 2,
        q_explanation =
          str ''Production mein CPU, memory, storage, network aur high availability sab consider karna padta hai yaar.'',
        q_service = str ''ec2'', q_difficulty = str ''intermediate'', q_topic = str ''production''\<rparr>)]"

text \<open>
  The service argument can be \<open>None\<close> at run time (the practice branch passes the session's
  sticky service, which may be unset). The default of \<open>dict.get\<close> is built before the
  lookup, so \<open>service.upper()\<close> is evaluated on every call and faults on \<open>None\<close>.
\<close>

definition get_fallback_question ::
  "unicode_tables \<Rightarrow> pystr option \<Rightarrow> pystr \<Rightarrow> error + question" where
  "get_fallback_question U service difficulty =
     (case service of
        None \<Rightarrow> Inl AttributeError
      | Some s \<Rightarrow>
          (let key = s @ str ''_'' @ difficulty;
               dflt = \<lparr>q_question = upper U s @ str '' ke baare mein ek question generate nahi kar paya yaar!'',
                       q_options = [str ''Try again'', str ''Different service'', str ''Check connection'',
                                    str ''Contact support''],
                       q_correct = 0,
                       q_explanation = str ''Technical issue hai, phir se try karo.'',
                       q_service = s, q_difficulty = difficulty, q_topic = str ''error''\<rparr>
           in Inr (case map_of fallback_questions key of Some q \<Rightarrow> q | None \<Rightarrow> dflt)))"

section \<open>Detection\<close>

definition service_keywords :: "(pystr \<times> pystr list) list" where
  "service_keywords =
     [(str ''ec2'', [str ''ec2'', str ''instance'', str ''server'', str ''virtual machine'', str ''ami'', str ''compute'']),
      (str ''s3'', [str ''s3'', str ''bucket'', str ''storage'', str ''object'', str ''file storage'']),
      (str ''lambda'', [str ''lambda'', str ''serverless'', str ''function'', str ''faas'']),
      (str ''iam'', [str ''iam'', str ''user'', str ''role'', str ''permission'', str ''policy'', str ''access'']),
      (str ''vpc'', [str ''vpc'', str ''network'', str ''subnet'', str ''security group'', str ''routing'']),
      (str ''rds'', [str ''rds'', str ''database'', str ''mysql'', str ''postgres'', str ''sql'']),
      (str ''cloudwatch'', [str ''cloudwatch'', str ''monitoring'', str ''logs'', str ''metrics'', str ''alarm''])]"

definition keyword_score :: "pystr \<Rightarrow> pystr list \<Rightarrow> int" where
  "keyword_score msg_lower keywords =
     sum_list (map (\<lambda>keyword. if py_in keyword msg_lower then 2 else 0) keywords)"

text \<open>The dictionary \<open>scores\<close>: the services with a positive score, in table order.\<close>

definition service_scores :: "unicode_tables \<Rightarrow> pystr \<Rightarrow> (pystr \<times> int) list" where
  "service_scores U message =
     (let msg_lower = lower U message
      in filter (\<lambda>(service, score). score > 0)
           (map (\<lambda>(service, keywords). (service, keyword_score msg_lower keywords)) service_keywords))"

text \<open>
  \<open>max(scores, key=scores.get)\<close>: one pass that replaces the running best only by a
  strictly larger score, so the first key that reaches the maximum wins.
\<close>

fun max_from :: "'a \<times> int \<Rightarrow> ('a \<times> int) list \<Rightarrow> 'a \<times> int" where
  "max_from best [] = best"
| "max_from best (kv # rest) = (if snd kv > snd best then max_from kv rest else max_from best rest)"

definition detect_service :: "unicode_tables \<Rightarrow> pystr \<Rightarrow> pystr option" where
  "detect_service U message =
     (case service_scores U message of
        [] \<Rightarrow> None
      | kv # rest \<Rightarrow> Some (fst (max_from kv rest)))"

fun first_in :: "unicode_tables \<Rightarrow> pystr list \<Rightarrow> pystr \<Rightarrow> pystr option" where
  "first_in U [] msg_lower = None"
| "first_in U (t # ts) msg_lower =
     (if py_in (lower U t) msg_lower then Some t else first_in U ts msg_lower)"

definition detect_topic :: "unicode_tables \<Rightarrow> pystr \<Rightarrow> pystr option \<Rightarrow> pystr option" where
  "detect_topic U message service =
     (if \<not> truthy service then None
      else (case map_of AWS_SERVICES (the service) of
              None \<Rightarrow> None
            | Some entry \<Rightarrow> first_in U (subtopics entry) (lower U message)))"

definition detect_access_method :: "unicode_tables \<Rightarrow> pystr \<Rightarrow> pystr option" where
  "detect_access_method U message =
     (let msg_lower = lower U message in
      if any_in [str ''console'', str ''gui'', str ''dashboard'', str ''web'', str ''ui''] msg_lower then Some (str ''console'')
      else if any_in [str ''cli'', str ''command'', str ''terminal'', str ''cmd''] msg_lower then Some (str ''cli'')
      else if any_in [str ''sdk'', str ''python'', str ''boto3'', str ''code'', str ''javascript'', str ''api''] msg_lower then Some (str ''sdk'')
      else None)"

text \<open>\<open>sep.join(xs)\<close>.\<close>

fun join :: "pystr \<Rightarrow> pystr list \<Rightarrow> pystr" where
  "join sep [] = []"
| "join sep [x] = x"
| "join sep (x # y # ys) = x @ sep @ join sep (y # ys)"

section \<open>\<open>format_service_info\<close>\<close>

definition format_service_info ::
  "unicode_tables \<Rightarrow> pystr \<Rightarrow> pystr option \<Rightarrow> pystr option \<Rightarrow> pystr" where
  "format_service_info U service access_method topic =
     (case map_of AWS_SERVICES service of
        None \<Rightarrow> str ''Sorry yaar, '' @ service @ str '' ke baare mein detailed info nahi hai abhi.''
      | Some service_info \<Rightarrow>
          (let r0 = str ''## **'' @ name service_info @ str ''**'' @ nl @ nl;
               r1 = r0 @ description service_info @ nl @ nl;
               r2 = (if truthy topic
                     then r1 @ str ''**'' @ title U (the topic) @ str ''** ke baare mein specific info:'' @ nl @ nl
                     else r1);
               r3 = (if truthy access_method then
                       (if access_method = Some (str ''console'')
                        then r2 @ str ''**Console Steps:**'' @ nl @ console service_info @ nl @ nl
                        else if access_method = Some (str ''cli'')
                        then r2 @ str ''**CLI Command:**'' @ nl @ str ''```bash'' @ nl @ cli service_info @ nl
                                @ str ''```'' @ nl @ nl
                        else if access_method = Some (str ''sdk'')
                        then r2 @ str ''**SDK Code:**'' @ nl @ str ''```python'' @ nl @ sdk service_info @ nl
                                @ str ''```'' @ nl @ nl
                        else r2)
                     else r2 @ str ''**Access kaise kare:**'' @ nl
                             @ bullet @ str '' **Console**: '' @ console service_info @ nl
                             @ bullet @ str '' **CLI**: `'' @ cli service_info @ str ''`'' @ nl
                             @ bullet @ str '' **SDK**: `'' @ sdk service_info @ str ''`'' @ nl @ nl);
               r4 = r3 @ str ''**Common Issues aur Solutions:**'' @ nl;
               r5 = r4 @ concat (map (\<lambda>(i, issue). str_nat i @ str ''. '' @ issue @ nl)
                                   (enumerate 1 (troubleshoot service_info)));
               r6 = (if subtopics service_info \<noteq> []
                     then r5 @ nl @ str ''**Related Topics:** '' @ join (str '', '') (subtopics service_info) @ nl
                     else r5)
           in r6 @ nl @ upper U service @ str '' ke baare mein aur kya jaanna hai?''))"

section \<open>The environment and the chatbot's state\<close>

text \<open>
  What the process reads from outside, fixed for the duration of one request:
  Python's case tables, the environment variable, the three calls that leave the process,
  the clock, the default session id and the random draw.

  \<^item> \<open>unicode\<close> is the part of Python's case tables that is not written out above.

  \<^item> \<open>generate_text message context detected_service\<close> is the outcome of
    \<open>model.generate_content(create_enhanced_prompt(message, context, detected_service)).text\<close>:
    the reply text, or the fault the call raised. The prompt is a function of these three
    arguments and building it cannot fault.
  \<^item> \<open>generate_question_data service difficulty topic\<close> is the outcome of the generation
    call of \<open>generate_question\<close> followed by \<open>json.loads\<close>: the parsed value (kept as its
    text), or the fault of the call or of the parser.
  \<^item> \<open>analyze_image image_data message context\<close> is the outcome of the body of
    \<open>analyze_screenshot\<close> after the availability test: decoding the data URI, opening the
    image and the generation call.
  \<^item> \<open>default_session_id\<close> is \<open>get_session_id()\<close>, \<open>now\<close> is \<open>datetime.now().isoformat()\<close>,
    \<open>random_index\<close> selects the element \<open>random.choice\<close> returns.
\<close>

record env =
  unicode :: unicode_tables
  GEMINI_API_KEY :: "pystr option"
  generate_text :: "pystr \<Rightarrow> conversation \<Rightarrow> pystr option \<Rightarrow> error + pystr"
  generate_question_data :: "pystr \<Rightarrow> pystr \<Rightarrow> pystr option \<Rightarrow> error + pystr"
  analyze_image :: "pystr \<Rightarrow> pystr \<Rightarrow> conversation \<Rightarrow> error + pystr"
  default_session_id :: pystr
  now :: pystr
  random_index :: nat

text \<open>
  \<open>chatbot.gemini_available\<close> is \<open>GEMINI_API_KEY is not None\<close>; the global \<open>model\<close> is bound
  only under \<open>if GEMINI_API_KEY:\<close>, that is for a non-empty key.
\<close>

definition gemini_available :: "env \<Rightarrow> bool" where
  "gemini_available e = (GEMINI_API_KEY e \<noteq> None)"

definition model_bound :: "env \<Rightarrow> bool" where
  "model_bound e = truthy (GEMINI_API_KEY e)"

definition random_choice :: "env \<Rightarrow> pystr list \<Rightarrow> pystr" where
  "random_choice e xs = xs ! (random_index e mod length xs)"

datatype practice_payload = FallbackQuestion question | GeneratedData pystr

record bot_state =
  conversations :: conversations
  generated_questions :: "pystr \<rightharpoonup> pystr list"

definition initial_state :: bot_state where
  "initial_state = \<lparr>conversations = Map.empty, generated_questions = Map.empty\<rparr>"

section \<open>\<open>PracticeQuestionGenerator.generate_question\<close>\<close>

text \<open>
  The body of the \<open>try\<close>: with no model the fallback is returned from inside the \<open>try\<close>;
  with a model the prompt is built first (\<open>service.upper()\<close> faults on \<open>None\<close>), the call is
  made and its parsed value is appended to the cache.
\<close>

definition generate_question_try ::
  "env \<Rightarrow> (pystr \<rightharpoonup> pystr list) \<Rightarrow> pystr option \<Rightarrow> pystr \<Rightarrow> pystr option
     \<Rightarrow> (error + practice_payload) \<times> (pystr \<rightharpoonup> pystr list)" where
  "generate_question_try e cache service difficulty topic =
     (if \<not> model_bound e then
        (case get_fallback_question (unicode e) service difficulty of
           Inl err \<Rightarrow> (Inl err, cache)
         | Inr q \<Rightarrow> (Inr (FallbackQuestion q), cache))
      else
        (case service of
           None \<Rightarrow> (Inl AttributeError, cache)
         | Some s \<Rightarrow>
             (case generate_question_data e s difficulty topic of
                Inl err \<Rightarrow> (Inl err, cache)
              | Inr question_data \<Rightarrow>
                  (let question_key = s @ str ''_'' @ difficulty @ str ''_''
                                        @ (if truthy topic then the topic else str ''general'');
                       old = (case cache question_key of None \<Rightarrow> [] | Some qs \<Rightarrow> qs)
                   in (Inr (GeneratedData question_data),
                       cache(question_key \<mapsto> old @ [question_data]))))))"

text \<open>The \<open>except\<close> clause calls the fallback again, outside any handler.\<close>

definition generate_question ::
  "env \<Rightarrow> (pystr \<rightharpoonup> pystr list) \<Rightarrow> pystr option \<Rightarrow> pystr \<Rightarrow> pystr option
     \<Rightarrow> (error + practice_payload) \<times> (pystr \<rightharpoonup> pystr list)" where
  "generate_question e cache service difficulty topic =
     (case generate_question_try e cache service difficulty topic of
        (Inr q, cache') \<Rightarrow> (Inr q, cache')
      | (Inl err, cache') \<Rightarrow>
          (case get_fallback_question (unicode e) service difficulty of
             Inl err' \<Rightarrow> (Inl err', cache')
           | Inr q \<Rightarrow> (Inr (FallbackQuestion q), cache')))"

section \<open>Fixed response texts\<close>

definition greeting_message :: pystr where
  "greeting_message = join nl
     [str ''# **Namaste yaar! '' @ folded_hands @ str '' AWS Expert Assistant**'',
      [],
      str ''AWS sikhne aur troubleshoot karne ke liye ready hun!'',
      [],
      str ''## **Main kya kar sakta hun:**'',
      [],
      bullet @ str '' **Service Explanations** - EC2, S3, Lambda, IAM, VPC, RDS, CloudWatch'',
      bullet @ str '' **Step-by-Step Guides** - Console, CLI, aur SDK sab methods'',
      bullet @ str '' **Troubleshooting Help** - Problems solve karne mein madad  '',
      bullet @ str '' **Practice Questions** - Dynamic AI-generated quiz'',
      bullet @ str '' **Screenshot Analysis** - AWS console ki images dekh kar help'',
      bullet @ str '' **Follow-up Support** - Detailed discussions'',
      [],
      str ''## **Popular Services:**'',
      str ''1. **EC2** - Virtual servers aur compute'',
      str ''2. **S3** - Object storage aur static hosting  '',
      str ''3. **Lambda** - Serverless functions'',
      str ''4. **IAM** - Users aur permissions'',
      [],
      str ''Kya sikhna chahte ho today? '' @ rocket]"

definition services_menu_message :: pystr where
  "services_menu_message = join nl
     [str ''# **AWS Services Available**'',
      [],
      str ''Main tumhe ye sab services mein help kar sakta hun:'',
      [],
      str ''## **Compute Services:**'',
      bullet @ str '' **EC2** - Virtual servers aur instances'',
      bullet @ str '' **Lambda** - Serverless functions'',
      [],
      str ''## **Storage Services:**  '',
      bullet @ str '' **S3** - Object storage aur static hosting'',
      [],
      str ''## **Database Services:**'',
      bullet @ str '' **RDS** - Managed relational databases'',
      [],
      str ''## **Networking:**'',
      bullet @ str '' **VPC** - Virtual private cloud'',
      [],
      str ''## **Security:**'',
      bullet @ str '' **IAM** - Identity and access management'',
      [],
      str ''## **Monitoring:**'',
      bullet @ str '' **CloudWatch** - Logs aur metrics'',
      [],
      str ''**Kya specific service ke baare mein jaanna hai?** '',
      str ''Format: '' @ dq @ str ''S3 console mein kaise use kare'' @ dq @ str '' ya '' @ dq
        @ str ''EC2 troubleshoot karo'' @ dq @ str '' '' @ thinking_face]"

definition apology_message :: pystr where
  "apology_message = join nl
     [str ''**Oops! Technical Issue '' @ sweat_smile @ str ''**'',
      [],
      str ''Kuch gadbad ho gayi yaar! Possible solutions:'',
      [],
      str ''1. **Phir se try karo** - Message resend kar do'',
      str ''2. **Simple language** - Basic English ya Hindi mein poocho  '',
      str ''3. **Specific question** - Exact service name mention karo'',
      [],
      str ''**Example:** '' @ dq @ str ''S3 bucket kaise banate hain console mein?'' @ dq,
      [],
      str ''Main phir ready hun! '' @ rocket]"

definition screenshot_unavailable_message :: pystr where
  "screenshot_unavailable_message = join nl
     [str ''**Screenshot Analysis Not Available** '' @ camera,
      [],
      str ''Gemini API key nahi mila yaar! '',
      [],
      str ''**Alternative Solutions:**'',
      str ''1. **Describe karo** - Text mein batao kya dikh raha hai'',
      str ''2. **Error message** - Jo error aa rahi hai wo copy paste kar do  '',
      str ''3. **Service name** - Konsi AWS service use kar rahe ho'',
      [],
      str ''**API Key setup ke liye:** `export GEMINI_API_KEY='' @ sq @ str ''your-key'' @ sq @ str ''`'']"

definition screenshot_failed_message :: pystr where
  "screenshot_failed_message = join nl
     [str ''**Screenshot Analysis Failed** '' @ sweat_smile,
      [],
      str ''Image process nahi kar paya yaar!'',
      [],
      str ''**Alternatives:**'',
      bullet @ str '' **Describe karo** - Text mein detail batao'',
      bullet @ str '' **Error code** - Exact error message share karo'',
      bullet @ str '' **Console section** - Konsa AWS service page khula hai'',
      [],
      str ''Phir main help kar sakta hun! '' @ wrench]"

section \<open>\<open>analyze_screenshot\<close>\<close>

text \<open>Every fault after the availability test is caught and answered with the fixed text.\<close>

definition analyze_screenshot :: "env \<Rightarrow> pystr \<Rightarrow> pystr \<Rightarrow> conversation \<Rightarrow> pystr" where
  "analyze_screenshot e image_data message context =
     (if \<not> gemini_available e then screenshot_unavailable_message
      else if \<not> model_bound e then screenshot_failed_message
      else (case analyze_image e image_data message context of
              Inl err \<Rightarrow> screenshot_failed_message
            | Inr text \<Rightarrow> text))"

section \<open>\<open>process_message\<close>\<close>

record response =
  r_message :: pystr
  r_service_info :: "service_entry option"
  r_code_examples :: "pystr option"
  r_troubleshooting :: "pystr option"
  r_practice_question :: "practice_payload option"
  r_session_id :: pystr
  r_follow_up_suggestions :: "pystr list"

text \<open>
  A local variable of \<open>process_message\<close> that some paths never assign. Reading it while
  unbound raises \<open>UnboundLocalError\<close>.
\<close>

datatype 'a local_var = Unbound | Bound 'a

text \<open>
  The locals that the last statement of \<open>process_message\<close> reads: the (possibly rewritten)
  message, the response under construction, \<open>detected_service\<close> and \<open>detected_topic\<close>.
\<close>

record frame =
  f_message :: pystr
  f_response :: response
  f_detected_service :: "pystr option local_var"
  f_detected_topic :: "pystr option local_var"

text \<open>
  How the \<open>try\<close> block ends: a \<open>return\<close> inside it, falling off its end, or a fault; the
  last two carry the locals as they are at that point.
\<close>

datatype outcome =
    Returned bot_state response
  | Completed bot_state frame
  | Raised bot_state frame error

definition greetings :: "pystr list" where
  "greetings = [str ''hello'', str ''hi'', str ''hey'', str ''namaste'', str ''aur bhai'']"

definition practice_words :: "pystr list" where
  "practice_words = [str ''practice'', str ''quiz'', str ''question'', str ''test'']"

text \<open>\<open>a or b\<close> on optional strings.\<close>

definition py_or :: "pystr option \<Rightarrow> pystr option \<Rightarrow> pystr option" where
  "py_or a b = (if truthy a then a else b)"

text \<open>
  \<open>context.get('current_service', 'general')\<close>. The context is either a stored record or
  the default of \<open>get_context\<close>; both have the key, so the lookup yields the stored value
  (possibly \<open>None\<close>) and the default argument is never used.
\<close>

definition context_get_current_service :: "conversation \<Rightarrow> pystr \<Rightarrow> pystr option" where
  "context_get_current_service context dflt = current_service context"

definition parse_difficulty :: "unicode_tables \<Rightarrow> pystr \<Rightarrow> pystr" where
  "parse_difficulty U message =
     (if py_in (str ''advanced'') (lower U message) then str ''advanced''
      else if py_in (str ''intermediate'') (lower U message) then str ''intermediate''
      else str ''beginner'')"

definition practice_header :: "pystr \<Rightarrow> pystr \<Rightarrow> pystr" where
  "practice_header label difficulty =
     str ''**'' @ label @ str '' Practice Question** ('' @ difficulty @ str '' level) '' @ thinking_face"

definition store_in ::
  "env \<Rightarrow> bot_state \<Rightarrow> pystr \<Rightarrow> pystr \<Rightarrow> pystr \<Rightarrow> pystr option \<Rightarrow> pystr option \<Rightarrow> bot_state" where
  "store_in e st session_id user_message bot_response service topic =
     st\<lparr>conversations :=
          store_context (conversations st) session_id user_message bot_response service topic (now e)\<rparr>"

text \<open>The practice branch (the body of the second \<open>if\<close> of the \<open>try\<close> block).\<close>

definition practice_branch ::
  "env \<Rightarrow> bot_state \<Rightarrow> conversation \<Rightarrow> pystr \<Rightarrow> pystr \<Rightarrow> response \<Rightarrow> outcome" where
  "practice_branch e st context session_id message response0 =
     (let difficulty = parse_difficulty (unicode e) message;
          detected_service = py_or (detect_service (unicode e) message)
                                   (context_get_current_service context (str ''general''));
          topic = (if detected_service \<noteq> Some (str ''general'')
                   then detect_topic (unicode e) message detected_service else None);
          fr = \<lparr>f_message = message, f_response = response0,
                f_detected_service = Bound detected_service, f_detected_topic = Unbound\<rparr>
      in if detected_service \<noteq> Some (str ''general'') then
           (case generate_question e (generated_questions st) detected_service difficulty topic of
              (Inl err, cache) \<Rightarrow> Raised (st\<lparr>generated_questions := cache\<rparr>) fr err
            | (Inr q, cache) \<Rightarrow>
                (case detected_service of
                   None \<Rightarrow>
                     Raised (st\<lparr>generated_questions := cache\<rparr>)
                       (fr\<lparr>f_response := response0\<lparr>r_practice_question := Some q\<rparr>\<rparr>) AttributeError
                 | Some s \<Rightarrow>
                     (let msg = practice_header (upper (unicode e) s) difficulty;
                          resp = response0\<lparr>r_practice_question := Some q, r_message := msg\<rparr>
                      in Returned
                           (store_in e (st\<lparr>generated_questions := cache\<rparr>) session_id message msg None None)
                           resp)))
         else
           (let random_service = random_choice e known_services in
            case generate_question e (generated_questions st) (Some random_service) difficulty None of
              (Inl err, cache) \<Rightarrow> Raised (st\<lparr>generated_questions := cache\<rparr>) fr err
            | (Inr q, cache) \<Rightarrow>
                (let msg = practice_header (str ''Random AWS'') difficulty;
                     resp = response0\<lparr>r_practice_question := Some q, r_message := msg\<rparr>
                 in Returned
                      (store_in e (st\<lparr>generated_questions := cache\<rparr>) session_id message msg None None)
                      resp)))"

text \<open>The rest of the \<open>try\<close> block, from service detection on.\<close>

definition text_branch ::
  "env \<Rightarrow> bot_state \<Rightarrow> conversation \<Rightarrow> pystr \<Rightarrow> pystr \<Rightarrow> pystr option \<Rightarrow> response \<Rightarrow> outcome" where
  "text_branch e st context session_id message0 image_data response0 =
     (let detected_service0 = detect_service (unicode e) message0;
          detected_topic = (if truthy detected_service0
                            then detect_topic (unicode e) message0 detected_service0 else None);
          access_method = detect_access_method (unicode e) message0;
          follow_up = (is_follow_up (unicode e) message0 context \<and> truthy (current_service context));
          detected_service = (if follow_up then py_or detected_service0 (current_service context)
                              else detected_service0);
          message = (if follow_up
                     then str ''Follow-up about '' @ the (current_service context) @ str '': '' @ message0
                     else message0);
          fr = \<lparr>f_message = message, f_response = response0,
                f_detected_service = Bound detected_service, f_detected_topic = Bound detected_topic\<rparr>;
          suggestions = (if truthy detected_service
                         then map (\<lambda>t. upper (unicode e) (the detected_service) @ str '' '' @ t @ str '' ke baare mein batao'')
                                (take 3 (case map_of AWS_SERVICES (the detected_service) of
                                           None \<Rightarrow> [] | Some entry \<Rightarrow> subtopics entry))
                         else r_follow_up_suggestions response0)
      in if truthy image_data then
           (let msg = analyze_screenshot e (the image_data) message context
            in Returned (store_in e st session_id message msg None None) (response0\<lparr>r_message := msg\<rparr>))
         else if gemini_available e then
           (case (if model_bound e then generate_text e message context detected_service
                  else Inl NameError) of
              Inl err \<Rightarrow> Raised st fr err
            | Inr text \<Rightarrow>
                Completed st
                  (fr\<lparr>f_response :=
                        response0\<lparr>r_message := text,
                                  r_service_info := (if truthy detected_service
                                                     then map_of AWS_SERVICES (the detected_service)
                                                     else r_service_info response0),
                                  r_follow_up_suggestions := suggestions\<rparr>\<rparr>))
         else if truthy detected_service then
           Completed st
             (fr\<lparr>f_response :=
                   response0\<lparr>r_message := format_service_info (unicode e) (the detected_service) access_method
                                              detected_topic,
                             r_service_info := map_of AWS_SERVICES (the detected_service),
                             r_follow_up_suggestions := suggestions\<rparr>\<rparr>)
         else
           Completed st
             (fr\<lparr>f_response := response0\<lparr>r_message := services_menu_message,
                                           r_follow_up_suggestions := suggestions\<rparr>\<rparr>))"

definition try_block ::
  "env \<Rightarrow> bot_state \<Rightarrow> conversation \<Rightarrow> pystr \<Rightarrow> pystr \<Rightarrow> pystr option \<Rightarrow> response \<Rightarrow> outcome" where
  "try_block e st context session_id message image_data response0 =
     (if any_in greetings (lower (unicode e) message) then
        Returned (store_in e st session_id message greeting_message None None)
                 (response0\<lparr>r_message := greeting_message\<rparr>)
      else if any_in practice_words (lower (unicode e) message) then
        practice_branch e st context session_id message response0
      else text_branch e st context session_id message image_data response0)"

text \<open>
  The statement after the \<open>try\<close>: its arguments are evaluated first, and reading an
  unbound local raises before anything is stored.
\<close>

definition final_store :: "env \<Rightarrow> bot_state \<Rightarrow> pystr \<Rightarrow> frame \<Rightarrow> (error + response) \<times> bot_state" where
  "final_store e st session_id fr =
     (case f_detected_service fr of
        Unbound \<Rightarrow> (Inl UnboundLocalError, st)
      | Bound detected_service \<Rightarrow>
          (case f_detected_topic fr of
             Unbound \<Rightarrow> (Inl UnboundLocalError, st)
           | Bound detected_topic \<Rightarrow>
               (Inr (f_response fr),
                store_in e st session_id (f_message fr) (r_message (f_response fr))
                  detected_service detected_topic)))"

text \<open>\<open>if not session_id: session_id = self.conversation_manager.get_session_id()\<close>.\<close>

definition effective_session_id :: "env \<Rightarrow> pystr option \<Rightarrow> pystr" where
  "effective_session_id e session_id =
     (if truthy session_id then the session_id else default_session_id e)"

definition process_message ::
  "env \<Rightarrow> bot_state \<Rightarrow> pystr \<Rightarrow> pystr option \<Rightarrow> pystr option \<Rightarrow> (error + response) \<times> bot_state" where
  "process_message e st message image_data session_id =
     (let sid = effective_session_id e session_id;
          context = get_context (conversations st) sid;
          response0 = \<lparr>r_message = [], r_service_info = None, r_code_examples = None,
                       r_troubleshooting = None, r_practice_question = None, r_session_id = sid,
                       r_follow_up_suggestions = []\<rparr>
      in case try_block e st context sid message image_data response0 of
           Returned st' resp \<Rightarrow> (Inr resp, st')
         | Completed st' fr \<Rightarrow> final_store e st' sid fr
         | Raised st' fr err \<Rightarrow>
             final_store e st' sid
               (fr\<lparr>f_response := (f_response fr)\<lparr>r_message := apology_message\<rparr>\<rparr>))"

section \<open>The HTTP routes \<open>/api/chat\<close> and \<open>/api/config\<close>\<close>

text \<open>
  The parsed body of a chat request: \<open>req_message\<close> is \<open>data.get('message', '')\<close>, the other
  two fields are \<open>None\<close> when their key is absent. A request whose body does not parse to an
  object is \<open>None\<close>: \<open>request.json\<close> or the first \<open>data.get\<close> raises inside the handler's
  \<open>try\<close>.
\<close>

record chat_request =
  req_message :: pystr
  req_image :: "pystr option"
  req_session_id :: "pystr option"

record config_payload =
  gemini_configured :: bool
  services_count :: nat
  question_categories :: "pystr list"

datatype http_body =
    ErrorBody pystr
  | ChatBody response
  | ConfigBody config_payload
  | InternalServerError

record http_response =
  status :: nat
  body :: http_body

definition chat :: "env \<Rightarrow> bot_state \<Rightarrow> chat_request option \<Rightarrow> http_response \<times> bot_state" where
  "chat e st request =
     (case request of
        None \<Rightarrow> (\<lparr>status = 500, body = ErrorBody (str ''Server mein problem hai yaar! Phir se try karo.'')\<rparr>, st)
      | Some data \<Rightarrow>
          (if req_message data = [] \<and> \<not> truthy (req_image data)
           then (\<lparr>status = 400, body = ErrorBody (str ''Message ya image toh bhejo yaar!'')\<rparr>, st)
           else (case process_message e st (req_message data) (req_image data) (req_session_id data) of
                   (Inr resp, st') \<Rightarrow> (\<lparr>status = 200, body = ChatBody resp\<rparr>, st')
                 | (Inl err, st') \<Rightarrow>
                     (\<lparr>status = 500,
                       body = ErrorBody (str ''Server mein problem hai yaar! Phir se try karo.'')\<rparr>, st'))))"

text \<open>
  Module-level names as \<open>get_config\<close> sees them. \<open>get_practice_question\<close> is the view
  function of \<open>/api/practice\<close> (the route decorator returns the function it is given). A
  function object has no attribute \<open>keys\<close>; a dictionary has.
\<close>

datatype module_global = ViewFunction pystr | Dictionary "pystr list"

fun keys :: "module_global \<Rightarrow> error + pystr list" where
  "keys (ViewFunction f) = Inl AttributeError"
| "keys (Dictionary ks) = Inr ks"

definition get_practice_question :: module_global where
  "get_practice_question = ViewFunction (str ''get_practice_question'')"

text \<open>The dictionary handed to \<open>jsonify\<close>; its values are evaluated in order.\<close>

definition get_config :: "env \<Rightarrow> error + config_payload" where
  "get_config e =
     (let configured = (GEMINI_API_KEY e \<noteq> None);
          n = length AWS_SERVICES
      in case keys get_practice_question of
           Inl err \<Rightarrow> Inl err
         | Inr ks \<Rightarrow> Inr \<lparr>gemini_configured = configured, services_count = n,
                           question_categories = ks\<rparr>)"

text \<open>
  The route has no handler of its own, so the framework answers a fault of the view with
  status 500.
\<close>

definition config_route :: "env \<Rightarrow> http_response" where
  "config_route e =
     (case get_config e of
        Inl err \<Rightarrow> \<lparr>status = 500, body = InternalServerError\<rparr>
      | Inr c \<Rightarrow> \<lparr>status = 200, body = ConfigBody c\<rparr>)"

section \<open>Concrete inputs\<close>

text \<open>
  Tables that leave every code point as it is. They stand in for Python's tables in the
  examples below, whose texts are ASCII and never consult them.
\<close>

definition no_tables :: unicode_tables where
  "no_tables =
     \<lparr>lower_other = (\<lambda>before c after. [c]), upper_other = (\<lambda>c. [c]),
      title_other = (\<lambda>prev before c after. [c]), cased_other = (\<lambda>c. False)\<rparr>"

text \<open>A deployment without an API key: generation is disabled and no call leaves the process.\<close>

definition offline_env :: env where
  "offline_env =
     \<lparr>unicode = no_tables,
      GEMINI_API_KEY = None,
      generate_text = (\<lambda>message context detected_service. Inl (ExternalFault (str ''unreachable''))),
      generate_question_data = (\<lambda>service difficulty topic. Inl (ExternalFault (str ''unreachable''))),
      analyze_image = (\<lambda>image_data message context. Inl (ExternalFault (str ''unreachable''))),
      default_session_id = str ''0a1b2c3d'',
      now = str ''2024-05-01T10:00:00'',
      random_index = 0\<rparr>"

text \<open>A session that has had one exchange about S3.\<close>

definition s3_session :: conversation where
  "s3_session =
     \<lparr>history = [\<lparr>ex_user = str ''s3 bucket kaise banaye'', ex_bot = str ''...'', ex_service = Some (str ''s3''),
                   ex_topic = None, ex_timestamp = str ''2024-05-01T09:59:00''\<rparr>],
      current_service = Some (str ''s3''), current_topic = None, follow_up_count = 0\<rparr>"

definition s3_state :: bot_state where
  "s3_state = \<lparr>conversations = [str ''sess0001'' \<mapsto> s3_session], generated_questions = Map.empty\<rparr>"

section \<open>Literals\<close>

lemma str_Nil_iff [simp]: "str s = [] \<longleftrightarrow> s = []"
  by (simp add: str_def)

lemma str_inject [simp]: "str a = str b \<longleftrightarrow> a = b"
proof (induction a arbitrary: b)
  case Nil
  show ?case by (simp add: str_def eq_commute)
next
  case (Cons c cs)
  show ?case
  proof (cases b)
    case Nil
    then show ?thesis by (simp add: str_def)
  next
    case (Cons d ds)
    have "str (c # cs) = str (d # ds) \<longleftrightarrow> c = d \<and> str cs = str ds"
      by (simp add: str_def)
    then show ?thesis
      using Cons.IH [of ds] Cons by simp
  qed
qed

lemma str_append: "str a @ str b = str (a @ b)"
  by (simp add: str_def)

section \<open>Session store: monotonic history and sticky fields\<close>

lemma history_store_context:
  "history (get_context (store_context convs sid u b s t n) sid) =
   history (get_context convs sid)
     @ [\<lparr>ex_user = u, ex_bot = b, ex_service = s, ex_topic = t, ex_timestamp = n\<rparr>]"
  by (simp add: store_context_def get_context_def Let_def split: option.splits)

lemma current_service_store_context:
  "current_service (get_context (store_context convs sid u b s t n) sid) =
   (if truthy s then s else current_service (get_context convs sid))"
  by (simp add: store_context_def get_context_def Let_def split: option.splits)

lemma current_topic_store_context:
  "current_topic (get_context (store_context convs sid u b s t n) sid) =
   (if truthy t then t else current_topic (get_context convs sid))"
  by (simp add: store_context_def get_context_def Let_def split: option.splits)

lemma length_history_store_all:
  "length (history (get_context (store_all convs sid calls) sid)) =
   length (history (get_context convs sid)) + length calls"
proof (induction calls arbitrary: convs)
  case Nil
  show ?case by simp
next
  case (Cons call rest)
  obtain u b s t n where call: "call = (u, b, s, t, n)"
    by (cases call) auto
  show ?case
    by (simp add: call Cons.IH history_store_context)
qed

text \<open>
  Claim C4. Starting from a session id that is absent from the store, after \<open>N\<close> calls of
  \<open>store_context\<close> on that id the history has exactly \<open>N\<close> entries. Storing with
  \<open>service = None\<close> leaves \<open>current_service\<close> as it was, storing with \<open>topic = None\<close> leaves
  \<open>current_topic\<close> as it was, and whenever one of the two fields differs after a store, the
  value supplied for it was not \<open>None\<close>.
\<close>

theorem store_context_monotonic_sticky:
  assumes fresh: "convs sid = None"
  shows "length (history (get_context (store_all convs sid calls) sid)) = length calls
       \<and> current_service (get_context (store_context cs k u b None t n) k)
           = current_service (get_context cs k)
       \<and> current_topic (get_context (store_context cs k u b s None n) k)
           = current_topic (get_context cs k)
       \<and> (current_service (get_context (store_context cs k u b s t n) k)
             \<noteq> current_service (get_context cs k) \<longrightarrow> s \<noteq> None)
       \<and> (current_topic (get_context (store_context cs k u b s t n) k)
             \<noteq> current_topic (get_context cs k) \<longrightarrow> t \<noteq> None)"
proof -
  have "history (get_context convs sid) = []"
    using fresh by (simp add: get_context_def empty_conversation_def)
  then have "length (history (get_context (store_all convs sid calls) sid)) = length calls"
    by (simp add: length_history_store_all)
  moreover have "s' \<noteq> None" if "truthy s'" for s'
    using that by (cases s') auto
  ultimately show ?thesis
    by (auto simp add: current_service_store_context current_topic_store_context)
qed

theorem store_context_monotonic_sticky_witness:
  "(Map.empty :: conversations) (str ''sess0002'') = None
   \<and> length (history (get_context
        (store_all Map.empty (str ''sess0002'')
           [(str ''namaste'', str ''a'', None, None, str ''t1''),
            (str ''s3 kya hai'', str ''b'', Some (str ''s3''), None, str ''t2''),
            (str ''versioning batao'', str ''c'', Some (str ''s3''), Some (str ''versioning''), str ''t3'')])
        (str ''sess0002''))) = 3
   \<and> current_service (get_context
        (store_context (conversations s3_state) (str ''sess0001'') (str ''u'') (str ''b'') None (Some (str ''buckets'')) (str ''t4''))
        (str ''sess0001'')) = Some (str ''s3'')
   \<and> current_service (get_context
        (store_context (conversations s3_state) (str ''sess0001'') (str ''u'') (str ''b'') (Some (str ''ec2'')) None (str ''t4''))
        (str ''sess0001'')) \<noteq> current_service (get_context (conversations s3_state) (str ''sess0001''))
   \<and> current_topic (get_context
        (store_context (conversations s3_state) (str ''sess0001'') (str ''u'') (str ''b'') (Some (str ''ec2'')) None (str ''t4''))
        (str ''sess0001'')) = None"
  using store_context_monotonic_sticky
          [of Map.empty "str ''sess0002''"
              "[(str ''namaste'', str ''a'', None, None, str ''t1''),
                (str ''s3 kya hai'', str ''b'', Some (str ''s3''), None, str ''t2''),
                (str ''versioning batao'', str ''c'', Some (str ''s3''), Some (str ''versioning''), str ''t3'')]"
              "conversations s3_state" "str ''sess0001''" "str ''u''" "str ''b''" "Some (str ''buckets'')" "str ''t4''"
              "Some (str ''ec2'')"]
  by (simp add: s3_state_def s3_session_def get_context_def store_context_def)

text \<open>
  Claim C9. \<open>store_context\<close> treats every falsy service or topic as absent: with a service
  that is \<open>None\<close> or the empty string the stored \<open>current_service\<close> is unchanged, and likewise
  for the topic.
\<close>

theorem store_context_falsy_is_absent:
  "(\<not> truthy s \<longrightarrow>
      current_service (get_context (store_context cs k u b s t n) k)
        = current_service (get_context cs k))
   \<and> (\<not> truthy t \<longrightarrow>
      current_topic (get_context (store_context cs k u b s t n) k)
        = current_topic (get_context cs k))"
  by (simp add: current_service_store_context current_topic_store_context)

theorem store_context_falsy_is_absent_witness:
  "\<not> truthy (Some [])
   \<and> current_service (get_context (conversations s3_state) (str ''sess0001'')) = Some (str ''s3'')
   \<and> current_service (get_context
        (store_context (conversations s3_state) (str ''sess0001'') (str ''u'') (str ''b'') (Some []) (Some []) (str ''t4''))
        (str ''sess0001'')) = Some (str ''s3'')
   \<and> current_topic (get_context
        (store_context (conversations s3_state) (str ''sess0001'') (str ''u'') (str ''b'') (Some []) (Some []) (str ''t4''))
        (str ''sess0001'')) = current_topic (get_context (conversations s3_state) (str ''sess0001''))"
  using store_context_falsy_is_absent
          [of "Some []" "conversations s3_state" "str ''sess0001''" "str ''u''" "str ''b''" "Some []" "str ''t4''"]
  by (simp add: s3_state_def s3_session_def get_context_def)

section \<open>Follow-up detection\<close>

text \<open>
  Claim C6. For every message text and every context whose history is empty,
  \<open>is_follow_up\<close> is false, whatever the text contains.
\<close>

theorem is_follow_up_empty_history:
  "history context = [] \<Longrightarrow> \<not> is_follow_up U text context"
  by (simp add: is_follow_up_def)

theorem is_follow_up_empty_history_witness:
  "history empty_conversation = []
   \<and> any_in follow_up_indicators (lower no_tables (str ''aur kya?''))
   \<and> \<not> is_follow_up no_tables (str ''aur kya?'') empty_conversation"
proof -
  have h: "history empty_conversation = []"
    by (simp add: empty_conversation_def)
  have "any_in follow_up_indicators (lower no_tables (str ''aur kya?''))"
    by code_simp
  with h is_follow_up_empty_history [OF h, of no_tables "str ''aur kya?''"] show ?thesis
    by simp
qed

section \<open>Fallback practice questions\<close>

text \<open>
  Claim C8. \<open>get_fallback_question("s3", "beginner")\<close> returns a question whose correct index
  is 0 and which has exactly 4 options. For every service string a question is returned, and
  every question the function returns has its correct index in \<open>[0, 3]\<close> and exactly 4
  options.
\<close>

theorem get_fallback_question_invariant:
  "(\<exists>q. get_fallback_question U (Some (str ''s3'')) (str ''beginner'') = Inr q
        \<and> q_correct q = 0 \<and> length (q_options q) = 4)
   \<and> (\<exists>q. get_fallback_question U (Some s) d = Inr q)
   \<and> (get_fallback_question U service difficulty = Inr q'
        \<longrightarrow> 0 \<le> q_correct q' \<and> q_correct q' \<le> 3 \<and> length (q_options q') = 4)"
proof -
  have a: "\<exists>q. get_fallback_question U (Some (str ''s3'')) (str ''beginner'') = Inr q
        \<and> q_correct q = 0 \<and> length (q_options q) = 4"
    by (simp add: get_fallback_question_def fallback_questions_def str_append)
  have b: "\<exists>q. get_fallback_question U (Some s) d = Inr q"
    by (simp add: get_fallback_question_def)
  have c: "0 \<le> q_correct q' \<and> q_correct q' \<le> 3 \<and> length (q_options q') = 4"
    if "get_fallback_question U service difficulty = Inr q'"
    using that
    by (auto simp add: get_fallback_question_def fallback_questions_def Let_def
             split: option.splits if_splits)
  from a b c show ?thesis by blast
qed

theorem get_fallback_question_invariant_witness:
  "\<exists>q. get_fallback_question no_tables (Some (str ''ec2'')) (str ''intermediate'') = Inr q
       \<and> 0 \<le> q_correct q \<and> q_correct q \<le> 3 \<and> length (q_options q) = 4"
proof -
  obtain q where q: "get_fallback_question no_tables (Some (str ''ec2'')) (str ''intermediate'') = Inr q"
    using get_fallback_question_invariant [of no_tables "str ''ec2''" "str ''intermediate''"] by blast
  with get_fallback_question_invariant
         [of no_tables "str ''ec2''" "str ''intermediate''" "Some (str ''ec2'')" "str ''intermediate''" q]
  show ?thesis by blast
qed

section \<open>The configuration route\<close>

text \<open>
  Claim C1 says that \<open>GET /api/config\<close> always answers 200 with the configuration flags and
  counts and never faults. The view asks the function object \<open>get_practice_question\<close> for
  \<open>keys()\<close>, which raises on every request, so the route answers 500 in every environment.
\<close>

theorem get_config_faults:
  "get_config e = Inl AttributeError \<and> status (config_route e) = 500"
  by (simp add: get_config_def config_route_def get_practice_question_def)

section \<open>Practice requests without a service\<close>

lemma generate_question_None:
  "generate_question e cache None difficulty topic = (Inl AttributeError, cache)"
  by (simp add: generate_question_def generate_question_try_def get_fallback_question_def)

lemma get_context_initial:
  "get_context (conversations initial_state) sid = empty_conversation"
  by (simp add: get_context_def initial_state_def)

lemma quiz_facts:
  "\<not> any_in greetings (lower U (str ''quiz''))"
  "any_in practice_words (lower U (str ''quiz''))"
  "detect_service U (str ''quiz'') = None"
  by code_simp+

lemma practice_test_facts:
  "\<not> any_in greetings (lower U (str ''practice test''))"
  "any_in practice_words (lower U (str ''practice test''))"
  "detect_service U (str ''practice test'') = None"
  by code_simp+

text \<open>
  Claim C2 says that a practice request with no detected service and no sticky service
  takes the random-choice arm and produces a question. On a fresh session the message
  \<open>quiz\<close> resolves the service to \<open>None\<close> (the lookup default \<open>'general'\<close> is not used because
  the key is present), the arm for a known service is taken, question generation faults
  on \<open>None\<close>, and \<open>process_message\<close> itself then raises when it reads the unassigned
  \<open>detected_topic\<close>: no question is produced and nothing is stored.
\<close>

theorem practice_without_service_faults:
  "process_message e initial_state (str ''quiz'') None sid = (Inl UnboundLocalError, initial_state)"
  by (simp add: process_message_def try_block_def practice_branch_def quiz_facts
        get_context_initial empty_conversation_def py_or_def context_get_current_service_def
        detect_topic_def generate_question_None final_store_def Let_def)

text \<open>
  Claim C3 says that every fault raised during message processing ends in the apology
  message, a stored context and status 200. A fault raised in the practice branch is
  caught, but the store that follows the handler reads \<open>detected_topic\<close>, which that branch
  never assigns; the chat route answers 500 and stores nothing.
\<close>

theorem chat_practice_fault_is_500:
  "chat e initial_state
     (Some \<lparr>req_message = str ''practice test'', req_image = None, req_session_id = sid\<rparr>)
   = (\<lparr>status = 500, body = ErrorBody (str ''Server mein problem hai yaar! Phir se try karo.'')\<rparr>,
      initial_state)"
  by (simp add: chat_def process_message_def try_block_def practice_branch_def practice_test_facts
        get_context_initial empty_conversation_def py_or_def context_get_current_service_def
        detect_topic_def generate_question_None final_store_def Let_def)

section \<open>Service detection\<close>

text \<open>
  The running maximum splits the scanned list around the element it returns: everything
  before it scores strictly less, everything after it scores at most as much.
\<close>

lemma max_from_split:
  "\<exists>pre post. best # rest = pre @ max_from best rest # post
      \<and> (\<forall>x\<in>set pre. snd x < snd (max_from best rest))
      \<and> (\<forall>x\<in>set post. snd x \<le> snd (max_from best rest))"
proof (induction rest arbitrary: best)
  case Nil
  have "[best] = [] @ max_from best [] # []
      \<and> (\<forall>x\<in>set []. snd x < snd (max_from best []))
      \<and> (\<forall>x\<in>set []. snd x \<le> snd (max_from best []))"
    by simp
  then show ?case by blast
next
  case (Cons kv rest)
  show ?case
  proof (cases "snd kv > snd best")
    case True
    define r where "r = max_from kv rest"
    have mf: "max_from best (kv # rest) = r"
      using True by (simp add: r_def)
    from Cons.IH [of kv] obtain pre post where
      d: "kv # rest = pre @ r # post"
      and lt: "\<forall>x\<in>set pre. snd x < snd r"
      and le: "\<forall>x\<in>set post. snd x \<le> snd r"
      unfolding r_def by blast
    have "kv \<in> set (kv # rest)"
      by simp
    then have "kv \<in> set (pre @ r # post)"
      by (simp only: d)
    then have "snd kv \<le> snd r"
      using lt le by auto
    then have "snd best < snd r"
      using True by simp
    then have lt': "\<forall>x\<in>set (best # pre). snd x < snd r"
      using lt by simp
    have e: "best # kv # rest = (best # pre) @ r # post"
      by (simp only: d append_Cons)
    from e lt' le show ?thesis
      unfolding mf by blast
  next
    case False
    define r where "r = max_from best rest"
    have mf: "max_from best (kv # rest) = r"
      using False by (simp add: r_def)
    from Cons.IH [of best] obtain pre post where
      d: "best # rest = pre @ r # post"
      and lt: "\<forall>x\<in>set pre. snd x < snd r"
      and le: "\<forall>x\<in>set post. snd x \<le> snd r"
      unfolding r_def by blast
    show ?thesis
    proof (cases pre)
      case Nil
      from d have "best # rest = r # post"
        by (simp only: Nil append_Nil)
      then have b: "best = r" and p: "rest = post"
        by (simp_all only: list.inject)
      have e: "best # kv # rest = [] @ r # (kv # post)"
        by (simp only: b p append_Nil)
      have "snd kv \<le> snd r"
        using False b by simp
      then have le': "\<forall>x\<in>set (kv # post). snd x \<le> snd r"
        using le by simp
      have lt': "\<forall>x\<in>set ([] :: ('a \<times> int) list). snd x < snd r"
        by simp
      from e lt' le' show ?thesis
        unfolding mf by blast
    next
      case (Cons p pre')
      from d have "best # rest = p # (pre' @ r # post)"
        by (simp only: Cons append_Cons)
      then have b: "best = p" and q: "rest = pre' @ r # post"
        by (simp_all only: list.inject)
      have "snd p < snd r"
        using lt by (simp add: Cons)
      then have "snd kv < snd r"
        using False b by simp
      then have lt': "\<forall>x\<in>set (p # kv # pre'). snd x < snd r"
        using lt \<open>snd p < snd r\<close> by (simp add: Cons)
      have "best # kv # (pre' @ r # post) = (p # kv # pre') @ r # post"
        by (simp only: b append_Cons)
      then have e: "best # kv # rest = (p # kv # pre') @ r # post"
        using q by (simp only:)
      from e lt' le show ?thesis
        unfolding mf by blast
    qed
  qed
qed

lemma filter_split:
  "filter P xs = pre' @ r # post' \<Longrightarrow>
   \<exists>pre post. xs = pre @ r # post \<and> filter P pre = pre' \<and> filter P post = post'"
proof (induction xs arbitrary: pre')
  case Nil
  then show ?case by simp
next
  case (Cons x xs)
  show ?case
  proof (cases "P x")
    case False
    with Cons.prems have "filter P xs = pre' @ r # post'" by simp
    from Cons.IH [OF this] obtain pre post where
      "xs = pre @ r # post" "filter P pre = pre'" "filter P post = post'" by blast
    then have "x # xs = (x # pre) @ r # post \<and> filter P (x # pre) = pre' \<and> filter P post = post'"
      using False by simp
    then show ?thesis by blast
  next
    case True
    with Cons.prems have e: "x # filter P xs = pre' @ r # post'" by simp
    show ?thesis
    proof (cases pre')
      case Nil
      with e have "x # xs = [] @ r # xs \<and> filter P [] = pre' \<and> filter P xs = post'" by simp
      then show ?thesis by blast
    next
      case (Cons p ps)
      with e have px: "p = x" and "filter P xs = ps @ r # post'" by simp_all
      from Cons.IH [OF this(2)] obtain pre post where
        "xs = pre @ r # post" "filter P pre = ps" "filter P post = post'" by blast
      then have "x # xs = (x # pre) @ r # post \<and> filter P (x # pre) = pre' \<and> filter P post = post'"
        using True Cons px by simp
      then show ?thesis by blast
    qed
  qed
qed



lemma positive_max_split:
  assumes "filter (\<lambda>kv. 0 < snd kv) xs = kv # rest"
  shows "\<exists>pre post. xs = pre @ max_from kv rest # post
      \<and> 0 < snd (max_from kv rest)
      \<and> (\<forall>x\<in>set pre. snd x < snd (max_from kv rest))
      \<and> (\<forall>x\<in>set post. snd x \<le> snd (max_from kv rest))"
proof -
  let ?P = "\<lambda>kv::'a \<times> int. 0 < snd kv"
  let ?r = "max_from kv rest"
  from max_from_split [of kv rest] obtain pre' post' where
    d: "kv # rest = pre' @ ?r # post'"
    and lt: "\<forall>x\<in>set pre'. snd x < snd ?r"
    and le: "\<forall>x\<in>set post'. snd x \<le> snd ?r"
    by blast
  from assms d have "filter ?P xs = pre' @ ?r # post'" by simp
  from filter_split [OF this] obtain pre post where
    x: "xs = pre @ ?r # post" and fp: "filter ?P pre = pre'" and fq: "filter ?P post = post'"
    by blast
  have "?r \<in> set (filter ?P xs)"
    using assms d by simp
  then have pos: "0 < snd ?r" by simp
  have "snd y < snd ?r" if "y \<in> set pre" for y
  proof (cases "?P y")
    case True
    with that fp have "y \<in> set pre'" by auto
    with lt show ?thesis by blast
  next
    case False
    with pos show ?thesis by simp
  qed
  moreover have "snd y \<le> snd ?r" if "y \<in> set post" for y
  proof (cases "?P y")
    case True
    with that fq have "y \<in> set post'" by auto
    with le show ?thesis by blast
  next
    case False
    with pos show ?thesis by simp
  qed
  ultimately show ?thesis
    using x pos by blast
qed

lemma service_scores_alt:
  "service_scores U m =
     filter (\<lambda>kv. 0 < snd kv) (map (\<lambda>sk. (fst sk, keyword_score (lower U m) (snd sk))) service_keywords)"
  by (simp add: service_scores_def Let_def case_prod_unfold)

lemma detect_service_None_iff:
  "detect_service U m = None \<longleftrightarrow> (\<forall>sk\<in>set service_keywords. \<not> 0 < keyword_score (lower U m) (snd sk))"
proof -
  have "detect_service U m = None \<longleftrightarrow> service_scores U m = []"
    by (simp add: detect_service_def split: list.splits)
  also have "\<dots> \<longleftrightarrow> (\<forall>sk\<in>set service_keywords. \<not> 0 < keyword_score (lower U m) (snd sk))"
    by (simp add: service_scores_alt filter_empty_conv)
  finally show ?thesis .
qed

lemma keyword_score_nonneg: "0 \<le> keyword_score t ks"
  unfolding keyword_score_def by (induction ks) auto



lemma first_max_of_table:
  fixes tbl :: "('k \<times> 'b) list" and sc :: "'b \<Rightarrow> int"
  assumes f: "filter (\<lambda>kv. 0 < snd kv) (map (\<lambda>sk. (fst sk, sc (snd sk))) tbl) = kv # rest"
  shows "\<exists>pre kws post. tbl = pre @ (fst (max_from kv rest), kws) # post
      \<and> 0 < sc kws
      \<and> (\<forall>x\<in>set pre. sc (snd x) < sc kws)
      \<and> (\<forall>x\<in>set post. sc (snd x) \<le> sc kws)"
proof -
  define g where "g = (\<lambda>sk::'k \<times> 'b. (fst sk, sc (snd sk)))"
  have g_snd: "snd (g x) = sc (snd x)" and g_fst: "fst (g x) = fst x" for x
    by (simp_all add: g_def)
  from f have f': "filter (\<lambda>kv. 0 < snd kv) (map g tbl) = kv # rest"
    by (simp only: g_def)
  from positive_max_split [OF f'] obtain pre' post' where
    d: "map g tbl = pre' @ max_from kv rest # post'"
    and pos: "0 < snd (max_from kv rest)"
    and lt: "\<forall>x\<in>set pre'. snd x < snd (max_from kv rest)"
    and le: "\<forall>x\<in>set post'. snd x \<le> snd (max_from kv rest)"
    by blast
  from d have "\<exists>us vs. tbl = us @ vs \<and> pre' = map g us \<and> max_from kv rest # post' = map g vs"
    by (simp only: map_eq_append_conv)
  then obtain pre where
    "\<exists>vs. tbl = pre @ vs \<and> pre' = map g pre \<and> max_from kv rest # post' = map g vs" ..
  then obtain tl where
    abc: "tbl = pre @ tl \<and> pre' = map g pre \<and> max_from kv rest # post' = map g tl" ..
  from abc have a: "tbl = pre @ tl"
    by (rule conjunct1)
  from abc have b: "pre' = map g pre"
    by (rule conjunct1 [OF conjunct2])
  from abc have c: "max_from kv rest # post' = map g tl"
    by (rule conjunct2 [OF conjunct2])
  from c have "\<exists>z zs. tl = z # zs \<and> max_from kv rest = g z \<and> post' = map g zs"
    by (simp only: Cons_eq_map_conv)
  then obtain sk where
    "\<exists>zs. tl = sk # zs \<and> max_from kv rest = g sk \<and> post' = map g zs" ..
  then obtain post where
    trp: "tl = sk # post \<and> max_from kv rest = g sk \<and> post' = map g post" ..
  from trp have tl: "tl = sk # post"
    by (rule conjunct1)
  from trp have r: "max_from kv rest = g sk"
    by (rule conjunct1 [OF conjunct2])
  from trp have p: "post' = map g post"
    by (rule conjunct2 [OF conjunct2])
  have "sk = (fst sk, snd sk)"
    by simp
  then have "sk = (fst (max_from kv rest), snd sk)"
    by (simp only: r g_fst)
  then have e: "tbl = pre @ (fst (max_from kv rest), snd sk) # post"
    using a tl by (simp only:)
  have "0 < sc (snd sk)"
    using pos by (simp only: r g_snd)
  moreover have "\<forall>x\<in>set pre. sc (snd x) < sc (snd sk)"
    using lt by (simp add: b r g_snd)
  moreover have "\<forall>x\<in>set post. sc (snd x) \<le> sc (snd sk)"
    using le by (simp add: p r g_snd)
  ultimately show ?thesis
    using e by blast
qed

lemma detect_service_Some:
  assumes "detect_service U m = Some s"
  shows "\<exists>pre kws post. service_keywords = pre @ (s, kws) # post
      \<and> 0 < keyword_score (lower U m) kws
      \<and> (\<forall>sk\<in>set pre. keyword_score (lower U m) (snd sk) < keyword_score (lower U m) kws)
      \<and> (\<forall>sk\<in>set post. keyword_score (lower U m) (snd sk) \<le> keyword_score (lower U m) kws)"
proof -
  obtain kv rest where ss: "service_scores U m = kv # rest"
    using assms by (cases "service_scores U m") (simp_all add: detect_service_def)
  with assms have s: "fst (max_from kv rest) = s"
    by (simp add: detect_service_def)
  have "filter (\<lambda>kv. 0 < snd kv)
          (map (\<lambda>sk. (fst sk, keyword_score (lower U m) (snd sk))) service_keywords) = kv # rest"
    using ss by (simp only: service_scores_alt)
  from first_max_of_table [OF this] show ?thesis
    by (simp only: s)
qed

lemma known_services_eq:
  "set known_services = {str ''ec2'', str ''s3'', str ''lambda'', str ''iam'', str ''vpc'', str ''rds'', str ''cloudwatch''}"
  "map fst service_keywords = known_services"
  by (simp_all add: known_services_def AWS_SERVICES_def service_keywords_def)

text \<open>
  Claim C5. For every text, \<open>detect_service\<close> returns \<open>None\<close> or one of the seven known
  service ids. It returns \<open>None\<close> exactly when every service's keyword score is zero.
  Otherwise the returned service has the highest score of the table, and every service
  before it in the table has a strictly smaller score (the first service that reaches the
  maximum wins). The result depends on the text alone.
\<close>

theorem detect_service_spec:
  "set known_services = {str ''ec2'', str ''s3'', str ''lambda'', str ''iam'', str ''vpc'', str ''rds'', str ''cloudwatch''}
   \<and> (detect_service U m = None \<or> (\<exists>s. detect_service U m = Some s \<and> s \<in> set known_services))
   \<and> (detect_service U m = None
        \<longleftrightarrow> (\<forall>sk\<in>set service_keywords. keyword_score (lower U m) (snd sk) = 0))
   \<and> (\<forall>s. detect_service U m = Some s \<longrightarrow>
         (\<exists>pre kws post. service_keywords = pre @ (s, kws) # post
            \<and> (\<forall>sk\<in>set pre. keyword_score (lower U m) (snd sk) < keyword_score (lower U m) kws)
            \<and> (\<forall>sk\<in>set post. keyword_score (lower U m) (snd sk) \<le> keyword_score (lower U m) kws)))
   \<and> (m = m' \<longrightarrow> detect_service U m = detect_service U m')"
proof -
  have none: "detect_service U m = None
        \<longleftrightarrow> (\<forall>sk\<in>set service_keywords. keyword_score (lower U m) (snd sk) = 0)"
  proof -
    have "\<not> 0 < keyword_score (lower U m) ks \<longleftrightarrow> keyword_score (lower U m) ks = 0" for ks
      using keyword_score_nonneg [of "lower U m" ks] by linarith
    then show ?thesis
      by (simp add: detect_service_None_iff)
  qed
  have some: "\<exists>pre kws post. service_keywords = pre @ (s, kws) # post
            \<and> (\<forall>sk\<in>set pre. keyword_score (lower U m) (snd sk) < keyword_score (lower U m) kws)
            \<and> (\<forall>sk\<in>set post. keyword_score (lower U m) (snd sk) \<le> keyword_score (lower U m) kws)"
    if "detect_service U m = Some s" for s
    using detect_service_Some [OF that] by blast
  have mem: "s \<in> set known_services" if "detect_service U m = Some s" for s
  proof -
    from some [OF that] obtain pre kws post where "service_keywords = pre @ (s, kws) # post"
      by blast
    moreover have "s \<in> set (map fst (pre @ (s, kws) # post))" by simp
    ultimately have "s \<in> set (map fst service_keywords)" by (simp only:)
    then show ?thesis by (simp only: known_services_eq(2))
  qed
  have range: "detect_service U m = None \<or> (\<exists>s. detect_service U m = Some s \<and> s \<in> set known_services)"
    using mem by (cases "detect_service U m") auto
  have det: "m = m' \<longrightarrow> detect_service U m = detect_service U m'"
    by simp
  from some have some': "\<forall>s. detect_service U m = Some s \<longrightarrow>
         (\<exists>pre kws post. service_keywords = pre @ (s, kws) # post
            \<and> (\<forall>sk\<in>set pre. keyword_score (lower U m) (snd sk) < keyword_score (lower U m) kws)
            \<and> (\<forall>sk\<in>set post. keyword_score (lower U m) (snd sk) \<le> keyword_score (lower U m) kws))"
    by blast
  show ?thesis
    by (intro conjI known_services_eq(1) range none some' det)
qed


lemma tie_facts:
  "detect_service U (str ''ec2 instance aur s3 bucket'') = Some (str ''ec2'')"
  "keyword_score (lower U (str ''ec2 instance aur s3 bucket''))
     [str ''ec2'', str ''instance'', str ''server'', str ''virtual machine'', str ''ami'', str ''compute''] = 4"
  "keyword_score (lower U (str ''ec2 instance aur s3 bucket''))
     [str ''s3'', str ''bucket'', str ''storage'', str ''object'', str ''file storage''] = 4"
  by code_simp+

theorem detect_service_spec_witness:
  "detect_service no_tables (str ''ec2 instance aur s3 bucket'') = Some (str ''ec2'')
   \<and> str ''ec2'' \<in> set known_services
   \<and> (\<exists>pre kws post. service_keywords = pre @ (str ''ec2'', kws) # post
        \<and> list_all (\<lambda>sk. keyword_score (lower no_tables (str ''ec2 instance aur s3 bucket'')) (snd sk)
                             < keyword_score (lower no_tables (str ''ec2 instance aur s3 bucket'')) kws) pre
        \<and> list_all (\<lambda>sk. keyword_score (lower no_tables (str ''ec2 instance aur s3 bucket'')) (snd sk)
                             \<le> keyword_score (lower no_tables (str ''ec2 instance aur s3 bucket'')) kws) post)
   \<and> detect_service no_tables (str ''quiz'') = None
   \<and> list_all (\<lambda>sk. keyword_score (lower no_tables (str ''quiz'')) (snd sk) = 0) service_keywords"
proof -
  note t = detect_service_spec [of no_tables "str ''ec2 instance aur s3 bucket''" "str ''ec2 instance aur s3 bucket''"]
  note q = detect_service_spec [of no_tables "str ''quiz''" "str ''quiz''"]
  have d: "detect_service no_tables (str ''ec2 instance aur s3 bucket'') = Some (str ''ec2'')"
    by (rule tie_facts(1) [of no_tables])
  have n: "detect_service no_tables (str ''quiz'') = None"
    by (rule quiz_facts(3) [of no_tables])
  from t d have k: "str ''ec2'' \<in> set known_services"
    by auto
  from t d have "\<exists>pre kws post. service_keywords = pre @ (str ''ec2'', kws) # post
        \<and> (\<forall>sk\<in>set pre. keyword_score (lower no_tables (str ''ec2 instance aur s3 bucket'')) (snd sk)
                             < keyword_score (lower no_tables (str ''ec2 instance aur s3 bucket'')) kws)
        \<and> (\<forall>sk\<in>set post. keyword_score (lower no_tables (str ''ec2 instance aur s3 bucket'')) (snd sk)
                             \<le> keyword_score (lower no_tables (str ''ec2 instance aur s3 bucket'')) kws)"
    by blast
  then have first: "\<exists>pre kws post. service_keywords = pre @ (str ''ec2'', kws) # post
        \<and> list_all (\<lambda>sk. keyword_score (lower no_tables (str ''ec2 instance aur s3 bucket'')) (snd sk)
                             < keyword_score (lower no_tables (str ''ec2 instance aur s3 bucket'')) kws) pre
        \<and> list_all (\<lambda>sk. keyword_score (lower no_tables (str ''ec2 instance aur s3 bucket'')) (snd sk)
                             \<le> keyword_score (lower no_tables (str ''ec2 instance aur s3 bucket'')) kws) post"
    by (simp only: list_all_iff)
  from q n have "\<forall>sk\<in>set service_keywords. keyword_score (lower no_tables (str ''quiz'')) (snd sk) = 0"
    by blast
  then have zero: "list_all (\<lambda>sk. keyword_score (lower no_tables (str ''quiz'')) (snd sk) = 0) service_keywords"
    by (simp only: list_all_iff)
  from d k first n zero show ?thesis
    by (intro conjI)
qed

section \<open>Follow-up messages in the conversation history\<close>

lemma store_in_history:
  "history (get_context (conversations (store_in e st sid u b s t)) sid) =
   history (get_context (conversations st) sid)
     @ [\<lparr>ex_user = u, ex_bot = b, ex_service = s, ex_topic = t, ex_timestamp = now e\<rparr>]"
  by (simp add: store_in_def history_store_context)

lemma text_branch_follow_up:
  assumes fu: "is_follow_up (unicode e) m ctx" and cs: "current_service ctx = Some svc" and ne: "svc \<noteq> []"
  shows "(\<exists>bot resp. text_branch e st ctx sid m img r0
            = Returned (store_in e st sid (str ''Follow-up about '' @ svc @ str '': '' @ m) bot None None) resp)
       \<or> (\<exists>fr ds dt. (text_branch e st ctx sid m img r0 = Completed st fr
                        \<or> (\<exists>err. text_branch e st ctx sid m img r0 = Raised st fr err))
              \<and> f_message fr = str ''Follow-up about '' @ svc @ str '': '' @ m
              \<and> f_detected_service fr = Bound ds \<and> f_detected_topic fr = Bound dt)"
proof (cases "truthy img")
  case True
  then show ?thesis
    using fu cs ne by (auto simp add: text_branch_def Let_def)
next
  case False
  show ?thesis
  proof (cases "gemini_available e")
    case g: True
    show ?thesis
    proof (cases "if model_bound e
                  then generate_text e (str ''Follow-up about '' @ svc @ str '': '' @ m) ctx
                         (py_or (detect_service (unicode e) m) (current_service ctx))
                  else Inl NameError")
      case (Inl err)
      then show ?thesis
        using fu cs ne False g by (auto simp add: text_branch_def Let_def)
    next
      case (Inr reply)
      then show ?thesis
        using fu cs ne False g by (auto simp add: text_branch_def Let_def)
    qed
  next
    case g: False
    then show ?thesis
      using fu cs ne False by (auto simp add: text_branch_def Let_def)
  qed
qed

lemma final_store_bound:
  assumes "f_detected_service fr = Bound ds" and "f_detected_topic fr = Bound dt"
  shows "final_store e st sid fr =
           (Inr (f_response fr),
            store_in e st sid (f_message fr) (r_message (f_response fr)) ds dt)"
  using assms by (simp add: final_store_def)

text \<open>
  Claim C10 says that whenever a message meets the follow-up criteria and the session has a
  sticky current service, the history entry of that turn holds the rewritten text
  \<open>"Follow-up about {service}: " + message\<close>. The greeting and practice branches return
  before the rewrite, so the claim holds as amended: for a message that is neither a
  greeting nor a practice request, meets the follow-up criteria and finds a sticky current
  service, \<open>process_message\<close> returns a response, appends exactly one history entry, and
  that entry's user text is the rewritten text (with or without an image, whether
  generation is configured, succeeds or faults).
\<close>

theorem follow_up_history_records_rewritten_text:
  assumes ng: "\<not> any_in greetings (lower (unicode e) m)"
    and np: "\<not> any_in practice_words (lower (unicode e) m)"
    and fu: "is_follow_up (unicode e) m (get_context (conversations st) (effective_session_id e sid))"
    and cs: "current_service (get_context (conversations st) (effective_session_id e sid)) = Some svc"
    and ne: "svc \<noteq> []"
  shows "\<exists>resp st'. process_message e st m img sid = (Inr resp, st')
       \<and> length (history (get_context (conversations st') (effective_session_id e sid)))
           = Suc (length (history (get_context (conversations st) (effective_session_id e sid))))
       \<and> ex_user (last (history (get_context (conversations st') (effective_session_id e sid))))
           = str ''Follow-up about '' @ svc @ str '': '' @ m"
proof -
  define k where "k = effective_session_id e sid"
  define ctx where "ctx = get_context (conversations st) k"
  define r0 where "r0 = \<lparr>r_message = [], r_service_info = None, r_code_examples = None,
                       r_troubleshooting = None, r_practice_question = None, r_session_id = k,
                       r_follow_up_suggestions = []\<rparr>"
  define pfx where "pfx = str ''Follow-up about '' @ svc @ str '': '' @ m"
  have pm: "process_message e st m img sid =
      (case text_branch e st ctx k m img r0 of
         Returned st' resp \<Rightarrow> (Inr resp, st')
       | Completed st' fr \<Rightarrow> final_store e st' k fr
       | Raised st' fr err \<Rightarrow>
           final_store e st' k (fr\<lparr>f_response := (f_response fr)\<lparr>r_message := apology_message\<rparr>\<rparr>))"
    unfolding k_def ctx_def r0_def using ng np
    by (simp add: process_message_def try_block_def Let_def)
  have stored: "\<exists>resp bot s t. process_message e st m img sid
                  = (Inr resp, store_in e st k pfx bot s t)"
  proof -
    from text_branch_follow_up [of e m ctx svc st k img r0] fu cs ne
    consider (ret) bot resp where
        "text_branch e st ctx k m img r0 = Returned (store_in e st k pfx bot None None) resp"
      | (comp) fr ds dt where
        "text_branch e st ctx k m img r0 = Completed st fr"
        "f_message fr = pfx" "f_detected_service fr = Bound ds" "f_detected_topic fr = Bound dt"
      | (raised) fr ds dt err where
        "text_branch e st ctx k m img r0 = Raised st fr err"
        "f_message fr = pfx" "f_detected_service fr = Bound ds" "f_detected_topic fr = Bound dt"
      unfolding ctx_def k_def pfx_def by blast
    then show ?thesis
    proof cases
      case ret
      then show ?thesis
        unfolding pm by simp blast
    next
      case comp
      then show ?thesis
        unfolding pm by (simp add: final_store_bound [of fr ds dt]) blast
    next
      case raised
      let ?fr = "fr\<lparr>f_response := (f_response fr)\<lparr>r_message := apology_message\<rparr>\<rparr>"
      from raised have "f_detected_service ?fr = Bound ds" "f_detected_topic ?fr = Bound dt"
        "f_message ?fr = pfx"
        by simp_all
      with raised(1) show ?thesis
        unfolding pm by (simp add: final_store_bound [of ?fr ds dt]) blast
    qed
  qed
  then obtain resp bot s t where
    r: "process_message e st m img sid = (Inr resp, store_in e st k pfx bot s t)"
    by blast
  have "history (get_context (conversations (store_in e st k pfx bot s t)) k)
          = history ctx @ [\<lparr>ex_user = pfx, ex_bot = bot, ex_service = s, ex_topic = t,
                             ex_timestamp = now e\<rparr>]"
    unfolding ctx_def by (rule store_in_history)
  then have "length (history (get_context (conversations (store_in e st k pfx bot s t)) k))
               = Suc (length (history ctx))
           \<and> ex_user (last (history (get_context (conversations (store_in e st k pfx bot s t)) k)))
               = pfx"
    by simp
  with r show ?thesis
    unfolding ctx_def k_def pfx_def by blast
qed

lemma aur_kya_facts:
  "\<not> any_in greetings (lower U (str ''aur kya?''))"
  "\<not> any_in practice_words (lower U (str ''aur kya?''))"
  "is_follow_up U (str ''aur kya?'') s3_session"
  by code_simp+

lemma s3_state_context:
  "get_context (conversations s3_state) (str ''sess0001'') = s3_session"
  "effective_session_id e (Some (str ''sess0001'')) = str ''sess0001''"
  by (simp_all add: get_context_def s3_state_def effective_session_id_def)

theorem follow_up_history_records_rewritten_text_witness:
  "\<not> any_in greetings (lower (unicode offline_env) (str ''aur kya?''))
   \<and> \<not> any_in practice_words (lower (unicode offline_env) (str ''aur kya?''))
   \<and> is_follow_up (unicode offline_env) (str ''aur kya?'') (get_context (conversations s3_state) (str ''sess0001''))
   \<and> current_service (get_context (conversations s3_state) (str ''sess0001'')) = Some (str ''s3'')
   \<and> (\<exists>resp st'. process_message offline_env s3_state (str ''aur kya?'') None (Some (str ''sess0001''))
                      = (Inr resp, st')
        \<and> length (history (get_context (conversations st') (str ''sess0001''))) = 2
        \<and> ex_user (last (history (get_context (conversations st') (str ''sess0001''))))
            = str ''Follow-up about s3: aur kya?'')"
proof -
  have fu: "is_follow_up (unicode offline_env) (str ''aur kya?'')
              (get_context (conversations s3_state) (effective_session_id offline_env (Some (str ''sess0001''))))"
    by (simp only: s3_state_context aur_kya_facts)
  have cs: "current_service
              (get_context (conversations s3_state) (effective_session_id offline_env (Some (str ''sess0001''))))
            = Some (str ''s3'')"
    by (simp add: s3_state_context s3_session_def)
  have ne: "str ''s3'' \<noteq> []"
    by simp
  have len: "length (history s3_session) = 1"
    by (simp add: s3_session_def)
  from follow_up_history_records_rewritten_text
         [OF aur_kya_facts(1) [of "unicode offline_env"] aur_kya_facts(2) [of "unicode offline_env"] fu cs ne, of None]
  have "\<exists>resp st'. process_message offline_env s3_state (str ''aur kya?'') None (Some (str ''sess0001''))
                      = (Inr resp, st')
        \<and> length (history (get_context (conversations st') (str ''sess0001''))) = 2
        \<and> ex_user (last (history (get_context (conversations st') (str ''sess0001''))))
            = str ''Follow-up about s3: aur kya?''"
    by (simp add: s3_state_context len numeral_2_eq_2 str_append)
  with aur_kya_facts fu cs show ?thesis
    by (simp only: s3_state_context simp_thms)
qed

lemma next_question_facts:
  "\<not> any_in greetings (lower U (str ''next question''))"
  "any_in practice_words (lower U (str ''next question''))"
  "detect_service U (str ''next question'') = None"
  "is_follow_up U (str ''next question'') s3_session"
  "detect_topic U (str ''next question'') (Some (str ''s3'')) = None"
  "parse_difficulty U (str ''next question'') = str ''beginner''"
  by code_simp+

lemma get_fallback_question_Some:
  "\<exists>q. get_fallback_question U (Some s) d = Inr q"
  by (simp add: get_fallback_question_def)

text \<open>
  The claim as stated fails for \<open>next question\<close> in a session about S3: the message meets
  the follow-up criteria, the practice branch answers it, and the history entry holds the
  message as the caller sent it.
\<close>

theorem follow_up_practice_request_counterexample:
  "is_follow_up (unicode offline_env) (str ''next question'') (get_context (conversations s3_state) (str ''sess0001''))
   \<and> current_service (get_context (conversations s3_state) (str ''sess0001'')) = Some (str ''s3'')
   \<and> ex_user (last (history (get_context
         (conversations (snd (process_message offline_env s3_state (str ''next question'') None
                                (Some (str ''sess0001'')))))
         (str ''sess0001'')))) = str ''next question''
   \<and> str ''next question'' \<noteq> str ''Follow-up about s3: next question''"
proof -
  let ?m = "str ''next question''"
  let ?k = "str ''sess0001''"
  let ?h = "practice_header (upper (unicode offline_env) (str ''s3'')) (str ''beginner'')"
  obtain q where
    gq: "get_fallback_question (unicode offline_env) (Some (str ''s3'')) (str ''beginner'') = Inr q"
    using get_fallback_question_Some by blast
  have mb: "\<not> model_bound offline_env"
    by (simp add: model_bound_def offline_env_def)
  have svc: "current_service s3_session = Some (str ''s3'')"
    by (simp add: s3_session_def)
  have pb: "practice_branch offline_env s3_state s3_session ?k ?m r0
              = Returned (store_in offline_env s3_state ?k ?m ?h None None)
                  (r0\<lparr>r_practice_question := Some (FallbackQuestion q), r_message := ?h\<rparr>)" for r0
    by (simp add: practice_branch_def next_question_facts py_or_def context_get_current_service_def
          svc generate_question_def generate_question_try_def mb gq Let_def)
  have "snd (process_message offline_env s3_state ?m None (Some ?k))
          = store_in offline_env s3_state ?k ?m ?h None None"
    by (simp add: process_message_def try_block_def next_question_facts s3_state_context pb Let_def)
  then have "ex_user (last (history (get_context
         (conversations (snd (process_message offline_env s3_state ?m None (Some ?k)))) ?k))) = ?m"
    by (simp add: store_in_history)
  moreover have "is_follow_up (unicode offline_env) ?m (get_context (conversations s3_state) ?k)"
    by (simp only: s3_state_context next_question_facts)
  moreover have "current_service (get_context (conversations s3_state) ?k) = Some (str ''s3'')"
    by (simp only: s3_state_context svc)
  moreover have "?m \<noteq> str ''Follow-up about s3: next question''"
    by simp
  ultimately show ?thesis
    by (intro conjI)
qed

section \<open>The console scenario\<close>

lemma console_message_facts:
  "\<not> any_in greetings (lower U (str ''ec2 instance kaise launch kare console mein''))"
  "\<not> any_in practice_words (lower U (str ''ec2 instance kaise launch kare console mein''))"
  "detect_service U (str ''ec2 instance kaise launch kare console mein'') = Some (str ''ec2'')"
  "detect_access_method U (str ''ec2 instance kaise launch kare console mein'') = Some (str ''console'')"
  "detect_topic U (str ''ec2 instance kaise launch kare console mein'') (Some (str ''ec2'')) = Some (str ''launch'')"
  by code_simp+

lemma ascii_case_facts:
  "title U (str ''launch'') = str ''Launch''"
  "upper U (str ''ec2'') = str ''EC2''"
  by code_simp+

lemmas text_defs = str_def nl_def arrow_def dq_def

lemma console_reply_value:
  "format_service_info U (str ''ec2'') (Some (str ''console'')) (Some (str ''launch'')) =
     str ''## **Amazon EC2**'' @ nl @ nl @ str ''Virtual servers in the cloud'' @ nl @ nl
     @ str ''**Launch** ke baare mein specific info:'' @ nl @ nl
     @ str ''**Console Steps:**'' @ nl @ console ec2_entry @ nl @ nl
     @ str ''**Common Issues aur Solutions:**'' @ nl
     @ str ''1. Check IAM permissions'' @ nl @ str ''2. Verify security groups'' @ nl
     @ str ''3. Check instance state'' @ nl @ str ''4. Review VPC settings'' @ nl
     @ nl @ str ''**Related Topics:** launch, security groups, key pairs, AMI, instance types, pricing'' @ nl
     @ nl @ str ''EC2 ke baare mein aur kya jaanna hai?''"
  apply (simp add: format_service_info_def AWS_SERVICES_def Let_def ascii_case_facts)
  apply (simp add: ec2_entry_def enumerate_eq_zip str_nat.simps digit_char_def text_defs upt_rec)
  done

lemma console_reply_facts:
  "py_in (console ec2_entry) (format_service_info U (str ''ec2'') (Some (str ''console'')) (Some (str ''launch'')))"
  "\<not> py_in (str ''CLI'') (format_service_info U (str ''ec2'') (Some (str ''console'')) (Some (str ''launch'')))"
  "\<not> py_in (str ''SDK'') (format_service_info U (str ''ec2'') (Some (str ''console'')) (Some (str ''launch'')))"
  "\<not> py_in (cli ec2_entry) (format_service_info U (str ''ec2'') (Some (str ''console'')) (Some (str ''launch'')))"
  "\<not> py_in (sdk ec2_entry) (format_service_info U (str ''ec2'') (Some (str ''console'')) (Some (str ''launch'')))"
  unfolding console_reply_value
  by (simp_all add: ec2_entry_def text_defs)

lemma offline_text_reply:
  assumes "\<not> any_in greetings (lower (unicode e) m)" and "\<not> any_in practice_words (lower (unicode e) m)"
    and "detect_service (unicode e) m = Some s" and "s \<noteq> []"
  shows "\<exists>resp. fst (process_message (e\<lparr>GEMINI_API_KEY := None\<rparr>) st m None sid) = Inr resp
       \<and> r_message resp
           = format_service_info (unicode e) s (detect_access_method (unicode e) m) (detect_topic (unicode e) m (Some s))"
  using assms
  by (simp add: process_message_def try_block_def text_branch_def gemini_available_def
        final_store_def py_or_def Let_def)

text \<open>
  Claim C7. For the message \<open>ec2 instance kaise launch kare console mein\<close> the detected
  service is \<open>ec2\<close> and the access method is \<open>console\<close>; with generation disabled the
  reply of \<open>process_message\<close> (in any state, for any session id) is the formatted
  knowledge-base text, which contains the EC2 console instructions and contains neither a
  CLI nor an SDK section (no \<open>CLI\<close> or \<open>SDK\<close> heading, and neither the CLI command nor the
  SDK call of EC2).
\<close>

theorem console_scenario:
  "detect_service (unicode e) (str ''ec2 instance kaise launch kare console mein'') = Some (str ''ec2'')
   \<and> detect_access_method (unicode e) (str ''ec2 instance kaise launch kare console mein'') = Some (str ''console'')
   \<and> (\<exists>resp. fst (process_message (e\<lparr>GEMINI_API_KEY := None\<rparr>) st
                      (str ''ec2 instance kaise launch kare console mein'') None sid) = Inr resp
        \<and> r_message resp = format_service_info (unicode e) (str ''ec2'') (Some (str ''console'')) (Some (str ''launch''))
        \<and> py_in (console ec2_entry) (r_message resp)
        \<and> \<not> py_in (str ''CLI'') (r_message resp)
        \<and> \<not> py_in (str ''SDK'') (r_message resp)
        \<and> \<not> py_in (cli ec2_entry) (r_message resp)
        \<and> \<not> py_in (sdk ec2_entry) (r_message resp))"
proof -
  have "str ''ec2'' \<noteq> []"
    by simp
  from offline_text_reply [OF console_message_facts(1) console_message_facts(2)
         console_message_facts(3) this, of e st sid]
  obtain resp where
    r: "fst (process_message (e\<lparr>GEMINI_API_KEY := None\<rparr>) st
               (str ''ec2 instance kaise launch kare console mein'') None sid) = Inr resp"
    and m: "r_message resp = format_service_info (unicode e) (str ''ec2'') (Some (str ''console'')) (Some (str ''launch''))"
    unfolding console_message_facts by blast
  have "fst (process_message (e\<lparr>GEMINI_API_KEY := None\<rparr>) st
               (str ''ec2 instance kaise launch kare console mein'') None sid) = Inr resp
        \<and> r_message resp = format_service_info (unicode e) (str ''ec2'') (Some (str ''console'')) (Some (str ''launch''))
        \<and> py_in (console ec2_entry) (r_message resp)
        \<and> \<not> py_in (str ''CLI'') (r_message resp)
        \<and> \<not> py_in (str ''SDK'') (r_message resp)
        \<and> \<not> py_in (cli ec2_entry) (r_message resp)
        \<and> \<not> py_in (sdk ec2_entry) (r_message resp)"
    by (simp only: r m console_reply_facts simp_thms)
  then have "\<exists>resp. fst (process_message (e\<lparr>GEMINI_API_KEY := None\<rparr>) st
                      (str ''ec2 instance kaise launch kare console mein'') None sid) = Inr resp
        \<and> r_message resp = format_service_info (unicode e) (str ''ec2'') (Some (str ''console'')) (Some (str ''launch''))
        \<and> py_in (console ec2_entry) (r_message resp)
        \<and> \<not> py_in (str ''CLI'') (r_message resp)
        \<and> \<not> py_in (str ''SDK'') (r_message resp)
        \<and> \<not> py_in (cli ec2_entry) (r_message resp)
        \<and> \<not> py_in (sdk ec2_entry) (r_message resp)"
    by (rule exI [where x = resp])
  with console_message_facts(3) console_message_facts(4) show ?thesis
    by (simp only: simp_thms)
qed

section \<open>Faults of the generation call in the text branch\<close>

text \<open>
  A fault raised after service and topic detection is handled as the handler intends: when
  generation is configured and the call faults on a message that is neither a greeting nor
  a practice request, the chat route answers 200 with the apology text and one history
  entry is stored. The practice branch differs only in that \<open>detected_topic\<close> is not yet
  assigned when its fault is caught.
\<close>

lemma text_generation_fault_is_caught:
  assumes ng: "\<not> any_in greetings (lower (unicode e) m)"
    and np: "\<not> any_in practice_words (lower (unicode e) m)"
    and ne: "m \<noteq> []"
    and av: "gemini_available e"
    and fault: "\<And>msg c s. \<exists>err. generate_text e msg c s = Inl err"
  shows "\<exists>resp st'.
           chat e st (Some \<lparr>req_message = m, req_image = None, req_session_id = sid\<rparr>)
             = (\<lparr>status = 200, body = ChatBody resp\<rparr>, st')
         \<and> r_message resp = apology_message
         \<and> length (history (get_context (conversations st') (effective_session_id e sid)))
             = Suc (length (history (get_context (conversations st) (effective_session_id e sid))))"
proof -
  define k where "k = effective_session_id e sid"
  define ctx where "ctx = get_context (conversations st) k"
  define r0 where "r0 = \<lparr>r_message = [], r_service_info = None, r_code_examples = None,
                       r_troubleshooting = None, r_practice_question = None, r_session_id = k,
                       r_follow_up_suggestions = []\<rparr>"
  have "\<exists>fr err ds dt. text_branch e st ctx k m None r0 = Raised st fr err
          \<and> f_response fr = r0 \<and> f_detected_service fr = Bound ds \<and> f_detected_topic fr = Bound dt"
  proof (cases "model_bound e")
    case True
    define msg where "msg = (if is_follow_up (unicode e) m ctx \<and> truthy (current_service ctx)
         then str ''Follow-up about '' @ the (current_service ctx) @ str '': '' @ m else m)"
    define ds where "ds = (if is_follow_up (unicode e) m ctx \<and> truthy (current_service ctx)
         then py_or (detect_service (unicode e) m) (current_service ctx) else detect_service (unicode e) m)"
    from fault [of msg ctx ds] obtain err where "generate_text e msg ctx ds = Inl err"
      by blast
    then show ?thesis
      using av True unfolding msg_def ds_def
      by (auto simp add: text_branch_def Let_def)
  next
    case False
    then show ?thesis
      using av by (auto simp add: text_branch_def Let_def)
  qed
  then obtain fr err ds dt where
    tb: "text_branch e st ctx k m None r0 = Raised st fr err"
    and fr: "f_response fr = r0" "f_detected_service fr = Bound ds" "f_detected_topic fr = Bound dt"
    by blast
  let ?fr = "fr\<lparr>f_response := (f_response fr)\<lparr>r_message := apology_message\<rparr>\<rparr>"
  have pm: "process_message e st m None sid = final_store e st k ?fr"
    using ng np tb unfolding k_def ctx_def r0_def
    by (simp add: process_message_def try_block_def Let_def)
  have fs: "final_store e st k ?fr =
              (Inr (f_response ?fr),
               store_in e st k (f_message ?fr) (r_message (f_response ?fr)) ds dt)"
    using fr by (simp add: final_store_def)
  have "chat e st (Some \<lparr>req_message = m, req_image = None, req_session_id = sid\<rparr>)
          = (\<lparr>status = 200, body = ChatBody (f_response ?fr)\<rparr>,
             store_in e st k (f_message ?fr) (r_message (f_response ?fr)) ds dt)"
    using ne by (simp add: chat_def pm fs)
  moreover have "r_message (f_response ?fr) = apology_message"
    by simp
  moreover have "length (history (get_context (conversations
                    (store_in e st k (f_message ?fr) (r_message (f_response ?fr)) ds dt)) k))
                 = Suc (length (history (get_context (conversations st) k)))"
    by (simp add: store_in_history)
  ultimately show ?thesis
    unfolding k_def by blast
qed

section \<open>Texts outside ASCII\<close>

text \<open>
  The two non-ASCII code points whose lower case contains an ASCII letter take part in the
  keyword tests: \<open>buc\<close> + U+212A + \<open>et\<close> folds to \<open>bucket\<close> and is detected as S3, and
  \<open>H\<close> + U+0130 + \<open> aur\<close> folds to a text that contains \<open>hi\<close> and is a greeting, so it is
  answered by the greeting branch whatever the session holds.
\<close>

lemma kelvin_sign_folds_to_k:
  "lower U (str ''buc'' @ [0x212A] @ str ''et'') = str ''bucket''"
  "detect_service U (str ''buc'' @ [0x212A] @ str ''et'') = Some (str ''s3'')"
  by code_simp+

lemma dotted_capital_i_folds_to_i:
  "lower U ([0x48, 0x130] @ str '' aur'') = str ''hi'' @ [0x307] @ str '' aur''"
  "any_in greetings (lower U ([0x48, 0x130] @ str '' aur''))"
  by code_simp+

lemma greeting_stores_original_text:
  assumes "any_in greetings (lower (unicode e) m)"
  shows "process_message e st m img sid =
           (Inr \<lparr>r_message = greeting_message, r_service_info = None, r_code_examples = None,
                 r_troubleshooting = None, r_practice_question = None,
                 r_session_id = effective_session_id e sid, r_follow_up_suggestions = []\<rparr>,
            store_in e st (effective_session_id e sid) m greeting_message None None)"
  using assms by (simp add: process_message_def try_block_def Let_def)

end
